theory Spec2Isabelle
  imports Main
begin

section \<open>Python values used by the engine\<close>

text \<open>
  The exceptions the engine can raise: a list index out of range and a missing
  dictionary key.  Every fallible operation returns \<open>py_error + 'a\<close>.
\<close>

datatype py_error = IndexError | KeyError

text \<open>
  Python list indexing \<open>xs[i]\<close>: a negative index counts from the end, an index out of
  range raises IndexError.
\<close>

fun nth_from :: "'a list \<Rightarrow> int \<Rightarrow> py_error + 'a" where
  "nth_from [] i = Inl IndexError"
| "nth_from (x # xs) i = (if i = 0 then Inr x else nth_from xs (i - 1))"

definition py_get :: "'a list \<Rightarrow> int \<Rightarrow> py_error + 'a" where
  "py_get xs i = nth_from xs (if i < 0 then i + int (length xs) else i)"

text \<open>Python item assignment \<open>xs[i] = v\<close>, with the same index rules.\<close>

fun upd_from :: "'a list \<Rightarrow> int \<Rightarrow> 'a \<Rightarrow> py_error + 'a list" where
  "upd_from [] i v = Inl IndexError"
| "upd_from (x # xs) i v =
     (if i = 0 then Inr (v # xs)
      else case upd_from xs (i - 1) v of Inl e \<Rightarrow> Inl e | Inr ys \<Rightarrow> Inr (x # ys))"

definition py_set :: "'a list \<Rightarrow> int \<Rightarrow> 'a \<Rightarrow> py_error + 'a list" where
  "py_set xs i v = upd_from xs (if i < 0 then i + int (length xs) else i) v"

section \<open>Pieces, board, moves\<close>

text \<open>
  A piece is a two-character string: colour (\<open>w\<close>, \<open>b\<close>) then kind
  (\<open>p R N B Q K\<close>); the empty square is \<open>--\<close>.  It is modelled as the pair of its
  two characters, so \<open>piece[0]\<close> is \<open>fst\<close> and \<open>piece[1]\<close> is \<open>snd\<close>.
  The names below are the ones the engine imports from its constants module, with the
  values its other modules spell out as literals.
\<close>

type_synonym piece = "char \<times> char"
type_synonym board = "piece list list"

definition EMPTY_SQUARE :: piece where "EMPTY_SQUARE = (CHR ''-'', CHR ''-'')"
definition WHITE_COLOR :: char where "WHITE_COLOR = CHR ''w''"
definition BLACK_COLOR :: char where "BLACK_COLOR = CHR ''b''"
definition PAWN :: char where "PAWN = CHR ''p''"
definition ROOK :: char where "ROOK = CHR ''R''"
definition KNIGHT :: char where "KNIGHT = CHR ''N''"
definition BISHOP :: char where "BISHOP = CHR ''B''"
definition QUEEN :: char where "QUEEN = CHR ''Q''"
definition KING :: char where "KING = CHR ''K''"

definition board_get :: "board \<Rightarrow> int \<Rightarrow> int \<Rightarrow> py_error + piece" where
  "board_get b r c = (case py_get b r of Inl e \<Rightarrow> Inl e | Inr row \<Rightarrow> py_get row c)"

definition board_set :: "board \<Rightarrow> int \<Rightarrow> int \<Rightarrow> piece \<Rightarrow> py_error + board" where
  "board_set b r c v =
     (case py_get b r of Inl e \<Rightarrow> Inl e
      | Inr row \<Rightarrow> (case py_set row c v of Inl e \<Rightarrow> Inl e
          | Inr row' \<Rightarrow> py_set b r row'))"

record Move =
  start_row :: int
  start_col :: int
  end_row :: int
  end_col :: int
  piece_moved :: piece
  piece_captured :: piece
  is_pawn_promotion :: bool
  is_enpassant_move :: bool
  is_castle_move :: bool
  is_capture :: bool
  moveID :: int

text \<open>The constructor \<open>Move(start_square, end_square, board, is_enpassant_move, is_castle_move)\<close>.\<close>

definition mkMove :: "int \<times> int \<Rightarrow> int \<times> int \<Rightarrow> board \<Rightarrow> bool \<Rightarrow> bool \<Rightarrow> py_error + Move" where
  "mkMove start_square end_square b enpassant castle =
     (case board_get b (fst start_square) (snd start_square) of Inl e \<Rightarrow> Inl e
      | Inr pm \<Rightarrow> (case board_get b (fst end_square) (snd end_square) of Inl e \<Rightarrow> Inl e
      | Inr pc0 \<Rightarrow>
          (let pc = (if enpassant
                     then (if pm = (CHR ''b'', CHR ''p'') then (CHR ''w'', CHR ''p'')
                           else (CHR ''b'', CHR ''p''))
                     else pc0)
           in Inr \<lparr> start_row = fst start_square, start_col = snd start_square,
                    end_row = fst end_square, end_col = snd end_square,
                    piece_moved = pm, piece_captured = pc,
                    is_pawn_promotion =
                      ((pm = (CHR ''w'', CHR ''p'') \<and> fst end_square = 0) \<or>
                       (pm = (CHR ''b'', CHR ''p'') \<and> fst end_square = 7)),
                    is_enpassant_move = enpassant,
                    is_castle_move = castle,
                    is_capture = (pc \<noteq> (CHR ''-'', CHR ''-'')),
                    moveID = fst start_square * 1000 + snd start_square * 100
                             + fst end_square * 10 + snd end_square \<rparr>)))"

text \<open>\<open>Move.__eq__\<close>: two moves are equal when their \<open>moveID\<close>s are.\<close>

definition move_eq :: "Move \<Rightarrow> Move \<Rightarrow> bool" where
  "move_eq a b = (moveID a = moveID b)"

record CastleRights =
  wks :: bool
  bks :: bool
  wqs :: bool
  bqs :: bool

section \<open>The game state\<close>

text \<open>
  \<open>CastleRights\<close> objects are mutable and shared: \<open>undoMove\<close> makes
  \<open>current_castling_rights\<close> the very object that ends \<open>castle_rights_log\<close>, and
  \<open>updateCastleRights\<close> assigns to the fields of whatever object
  \<open>current_castling_rights\<close> is.  They therefore live in a store: \<open>cr_store\<close> maps an
  address to the object's fields, \<open>cr_next\<close> is the next unused address, and
  \<open>current_castling_rights\<close> and the entries of \<open>castle_rights_log\<close> are addresses.
  Python's \<open>()\<close> for "no en-passant square" and for "no pin direction" is \<open>None\<close>.
  Lists grow at the end, as \<open>append\<close> and \<open>pop\<close> do.
\<close>

type_synonym ray = "int \<times> int \<times> int \<times> int"

record GameState =
  board :: board
  white_to_move :: bool
  move_log :: "Move list"
  white_king_location :: "int \<times> int"
  black_king_location :: "int \<times> int"
  checkmate :: bool
  stalemate :: bool
  in_check :: bool
  pins :: "ray list"
  checks :: "ray list"
  enpassant_possible :: "(int \<times> int) option"
  enpassant_possible_log :: "(int \<times> int) option list"
  cr_store :: "nat \<Rightarrow> CastleRights"
  cr_next :: nat
  current_castling_rights :: nat
  castle_rights_log :: "nat list"

text \<open>The value of the object \<open>current_castling_rights\<close> refers to.\<close>

definition cur_rights :: "GameState \<Rightarrow> CastleRights" where
  "cur_rights gs = cr_store gs (current_castling_rights gs)"

text \<open>\<open>CastleRights(wks, bks, wqs, bqs)\<close>: a new object, at a fresh address.\<close>

definition new_rights :: "GameState \<Rightarrow> CastleRights \<Rightarrow> GameState \<times> nat" where
  "new_rights gs v =
     (gs\<lparr>cr_store := (cr_store gs)(cr_next gs := v), cr_next := Suc (cr_next gs)\<rparr>, cr_next gs)"

section \<open>Pin and check detection (check_detection.py)\<close>

definition isValidAttackDirection :: "int \<Rightarrow> char \<Rightarrow> int \<Rightarrow> bool" where
  "isValidAttackDirection direction_index piece_type distance =
     (let is_orthogonal = (0 \<le> direction_index \<and> direction_index \<le> 3);
          is_diagonal = (4 \<le> direction_index \<and> direction_index \<le> 7)
      in if is_orthogonal \<and> piece_type = CHR ''R'' then True
         else if is_diagonal \<and> piece_type = CHR ''B'' then True
         else if piece_type = CHR ''Q'' then True
         else if distance = 1 \<and> piece_type = CHR ''p'' then direction_index \<in> set [4, 5, 6, 7]
         else if distance = 1 \<and> piece_type = CHR ''K'' then True
         else False)"

text \<open>
  The inner loop \<open>for i in range(1, 8)\<close> of one ray: \<open>ds\<close> holds the distances still to
  visit, \<open>possible_pin\<close> the candidate pin, and the triple the caller's \<open>in_check\<close>,
  \<open>pins\<close> and \<open>checks\<close>.  Every \<open>break\<close> returns the triple as it stands.
\<close>

fun scanRay :: "board \<Rightarrow> char \<Rightarrow> char \<Rightarrow> int \<times> int \<Rightarrow> int \<Rightarrow> int \<times> int \<Rightarrow> int list
    \<Rightarrow> ray option \<Rightarrow> bool \<times> ray list \<times> ray list \<Rightarrow> py_error + (bool \<times> ray list \<times> ray list)" where
  "scanRay b ally_color enemy_color start j direction [] possible_pin acc = Inr acc"
| "scanRay b ally_color enemy_color start j direction (i # ds) possible_pin acc =
     (let end_row = fst start + fst direction * i;
          end_col = snd start + snd direction * i
      in if \<not> (0 \<le> end_row \<and> end_row \<le> 7 \<and> 0 \<le> end_col \<and> end_col \<le> 7) then Inr acc
         else case board_get b end_row end_col of Inl e \<Rightarrow> Inl e
         | Inr end_piece \<Rightarrow>
             if fst end_piece = ally_color \<and> snd end_piece \<noteq> CHR ''K'' then
               (if possible_pin = None
                then scanRay b ally_color enemy_color start j direction ds
                       (Some (end_row, end_col, fst direction, snd direction)) acc
                else Inr acc)
             else if fst end_piece = enemy_color then
               (if isValidAttackDirection j (snd end_piece) i then
                  (case possible_pin of
                     None \<Rightarrow> Inr (True, fst (snd acc),
                                  snd (snd acc) @ [(end_row, end_col, fst direction, snd direction)])
                   | Some pin \<Rightarrow> Inr (fst acc, fst (snd acc) @ [pin], snd (snd acc)))
                else Inr acc)
             else scanRay b ally_color enemy_color start j direction ds possible_pin acc)"

definition directions :: "(int \<times> int) list" where
  "directions = [(-1, 0), (0, -1), (1, 0), (0, 1), (-1, -1), (-1, 1), (1, -1), (1, 1)]"

text \<open>The outer loop \<open>for j in range(len(directions))\<close>, over the pairs \<open>(j, directions[j])\<close>.\<close>

fun scanRays :: "board \<Rightarrow> char \<Rightarrow> char \<Rightarrow> int \<times> int \<Rightarrow> (int \<times> int \<times> int) list
    \<Rightarrow> bool \<times> ray list \<times> ray list \<Rightarrow> py_error + (bool \<times> ray list \<times> ray list)" where
  "scanRays b ally_color enemy_color start [] acc = Inr acc"
| "scanRays b ally_color enemy_color start (jd # jds) acc =
     (case scanRay b ally_color enemy_color start (fst jd) (snd jd) [1, 2, 3, 4, 5, 6, 7] None acc of
        Inl e \<Rightarrow> Inl e
      | Inr acc' \<Rightarrow> scanRays b ally_color enemy_color start jds acc')"

definition knight_moves :: "(int \<times> int) list" where
  "knight_moves = [(-2, -1), (-2, 1), (-1, 2), (1, 2), (2, -1), (2, 1), (-1, -2), (1, -2)]"

text \<open>
  \<open>_checkForKnightChecks(game_state, start_row, start_col, enemy_color, checks, in_check)\<close>.
  \<open>checks\<close> is the caller's list object, so the appends are seen by the caller;
  \<open>in_check\<close> is a parameter holding a bool, so \<open>in_check = True\<close> rebinds the
  helper's own local name.  The function returns both locals as they are at its end; what
  the caller does with them is written in \<open>checkForPinsAndChecks\<close>.
\<close>

fun checkForKnightChecks :: "board \<Rightarrow> int \<times> int \<Rightarrow> char \<Rightarrow> (int \<times> int) list
    \<Rightarrow> ray list \<Rightarrow> bool \<Rightarrow> py_error + (ray list \<times> bool)" where
  "checkForKnightChecks b start enemy_color [] chks in_chk = Inr (chks, in_chk)"
| "checkForKnightChecks b start enemy_color (mv # mvs) chks in_chk =
     (let end_row = fst start + fst mv; end_col = snd start + snd mv
      in if 0 \<le> end_row \<and> end_row \<le> 7 \<and> 0 \<le> end_col \<and> end_col \<le> 7 then
           (case board_get b end_row end_col of Inl e \<Rightarrow> Inl e
            | Inr end_piece \<Rightarrow>
                if fst end_piece = enemy_color \<and> snd end_piece = CHR ''N''
                then checkForKnightChecks b start enemy_color mvs
                       (chks @ [(end_row, end_col, fst mv, snd mv)]) True
                else checkForKnightChecks b start enemy_color mvs chks in_chk)
         else checkForKnightChecks b start enemy_color mvs chks in_chk)"

text \<open>
  \<open>check_detection.checkForPinsAndChecks(game_state)\<close>, returning
  \<open>(in_check, pins, checks)\<close>.  The helper's result is not assigned: the caller keeps its
  own \<open>in_check\<close> and sees the helper's appends to \<open>checks\<close>.
\<close>

definition detect :: "GameState \<Rightarrow> py_error + (bool \<times> ray list \<times> ray list)" where
  "detect gs =
     (let enemy_color = (if white_to_move gs then CHR ''b'' else CHR ''w'');
          ally_color = (if white_to_move gs then CHR ''w'' else CHR ''b'');
          start = (if white_to_move gs then white_king_location gs else black_king_location gs)
      in case scanRays (board gs) ally_color enemy_color start
                (zip [0, 1, 2, 3, 4, 5, 6, 7] directions) (False, [], []) of
           Inl e \<Rightarrow> Inl e
         | Inr (in_chk, pns, chks) \<Rightarrow>
             (case checkForKnightChecks (board gs) start enemy_color knight_moves chks in_chk of
                Inl e \<Rightarrow> Inl e
              | Inr (chks', helper_in_check) \<Rightarrow> Inr (in_chk, pns, chks')))"

text \<open>\<open>GameState.checkForPinsAndChecks\<close>: stores the three results in the state and returns them.\<close>

definition checkForPinsAndChecks :: "GameState \<Rightarrow> py_error + (GameState \<times> bool \<times> ray list \<times> ray list)" where
  "checkForPinsAndChecks gs =
     (case detect gs of Inl e \<Rightarrow> Inl e
      | Inr (in_chk, pns, chks) \<Rightarrow>
          Inr (gs\<lparr>in_check := in_chk, pins := pns, checks := chks\<rparr>, in_chk, pns, chks))"

section \<open>Piece moves (piece_moves.py)\<close>

text \<open>
  Every generator starts with the same loop, \<open>for i in range(len(pins) - 1, -1, -1)\<close>:
  it finds the last entry of \<open>game_state.pins\<close> whose square is \<open>(row, col)\<close>.
  \<open>pins.remove(pins[i])\<close> then deletes the first entry equal to it.
\<close>

definition find_pin :: "ray list \<Rightarrow> int \<Rightarrow> int \<Rightarrow> ray option" where
  "find_pin pns row col = find (\<lambda>p. fst p = row \<and> fst (snd p) = col) (rev pns)"

definition pin_dir :: "ray option \<Rightarrow> (int \<times> int) option" where
  "pin_dir pin = map_option (\<lambda>p. (fst (snd (snd p)), snd (snd (snd p)))) pin"

definition drop_pin :: "GameState \<Rightarrow> ray option \<Rightarrow> GameState" where
  "drop_pin gs pin = (case pin of None \<Rightarrow> gs | Some p \<Rightarrow> gs\<lparr>pins := remove1 p (pins gs)\<rparr>)"

text \<open>
  \<open>_addEnPassantIfValid\<close>.  \<open>range(king_col + 1, col - 1)\<close> is \<open>[king_col + 1..col - 2]\<close>,
  \<open>range(col + 1, 8)\<close> is \<open>[col + 1..7]\<close>, \<open>range(king_col - 1, col, -1)\<close> is
  \<open>[col + 1..king_col - 1]\<close> backwards and \<open>range(col - 2, -1, -1)\<close> is \<open>[0..col - 2]\<close>
  backwards.  Neither loop has a \<open>break\<close>.
\<close>

fun scanInside :: "board \<Rightarrow> int \<Rightarrow> int list \<Rightarrow> bool \<Rightarrow> py_error + bool" where
  "scanInside b row [] blocking_piece = Inr blocking_piece"
| "scanInside b row (i # cols) blocking_piece =
     (case board_get b row i of Inl e \<Rightarrow> Inl e
      | Inr square \<Rightarrow> scanInside b row cols (if square \<noteq> EMPTY_SQUARE then True else blocking_piece))"

fun scanOutside :: "board \<Rightarrow> int \<Rightarrow> char \<Rightarrow> int list \<Rightarrow> bool \<times> bool \<Rightarrow> py_error + (bool \<times> bool)" where
  "scanOutside b row enemy_color [] ab = Inr ab"
| "scanOutside b row enemy_color (i # cols) ab =
     (case board_get b row i of Inl e \<Rightarrow> Inl e
      | Inr square \<Rightarrow>
          scanOutside b row enemy_color cols
            (if fst square = enemy_color \<and> (snd square = CHR ''R'' \<or> snd square = CHR ''Q'')
             then (True, snd ab)
             else if square \<noteq> EMPTY_SQUARE then (fst ab, True)
             else ab))"

definition addEnPassantIfValid :: "GameState \<Rightarrow> int \<Rightarrow> int \<Rightarrow> int \<Rightarrow> int \<Rightarrow> int \<Rightarrow> int
    \<Rightarrow> Move list \<Rightarrow> char \<Rightarrow> py_error + Move list" where
  "addEnPassantIfValid gs row col move_amount col_offset king_row king_col moves enemy_color =
     (case (if king_row = row then
              (let inside_range = (if king_col < col then [king_col + 1..col - 2]
                                   else rev [col + 1..king_col - 1]);
                   outside_range = (if king_col < col then [col + 1..7]
                                    else rev [0..col - 2])
               in case scanInside (board gs) row inside_range False of Inl e \<Rightarrow> Inl e
                  | Inr blocking_piece \<Rightarrow>
                      scanOutside (board gs) row enemy_color outside_range (False, blocking_piece))
            else Inr (False, False)) of
        Inl e \<Rightarrow> Inl e
      | Inr (attacking_piece, blocking_piece) \<Rightarrow>
          if \<not> attacking_piece \<or> blocking_piece then
            (case mkMove (row, col) (row + move_amount, col + col_offset) (board gs) True False of
               Inl e \<Rightarrow> Inl e
             | Inr m \<Rightarrow> Inr (moves @ [m]))
          else Inr moves)"

text \<open>The three parts of \<open>getPawnMoves\<close> after the pin lookup: advance, capture left, capture right.\<close>

definition pawnAdvance :: "GameState \<Rightarrow> int \<Rightarrow> int \<Rightarrow> bool \<Rightarrow> (int \<times> int) option \<Rightarrow> int \<Rightarrow> int
    \<Rightarrow> Move list \<Rightarrow> py_error + Move list" where
  "pawnAdvance gs row col piece_pinned pin_direction move_amount home_row moves =
     (case board_get (board gs) (row + move_amount) col of Inl e \<Rightarrow> Inl e
      | Inr ahead \<Rightarrow>
          if ahead = EMPTY_SQUARE \<and> (\<not> piece_pinned \<or> pin_direction = Some (move_amount, 0)) then
            (case mkMove (row, col) (row + move_amount, col) (board gs) False False of Inl e \<Rightarrow> Inl e
             | Inr m1 \<Rightarrow>
                 if row = home_row then
                   (case board_get (board gs) (row + 2 * move_amount) col of Inl e \<Rightarrow> Inl e
                    | Inr ahead2 \<Rightarrow>
                        if ahead2 = EMPTY_SQUARE then
                          (case mkMove (row, col) (row + 2 * move_amount, col) (board gs) False False of
                             Inl e \<Rightarrow> Inl e
                           | Inr m2 \<Rightarrow> Inr (moves @ [m1] @ [m2]))
                        else Inr (moves @ [m1]))
                 else Inr (moves @ [m1]))
          else Inr moves)"

definition pawnCapture :: "GameState \<Rightarrow> int \<Rightarrow> int \<Rightarrow> bool \<Rightarrow> (int \<times> int) option \<Rightarrow> int \<Rightarrow> int
    \<Rightarrow> int \<Rightarrow> int \<Rightarrow> char \<Rightarrow> Move list \<Rightarrow> py_error + Move list" where
  "pawnCapture gs row col piece_pinned pin_direction move_amount col_offset king_row king_col
       enemy_color moves =
     (if \<not> piece_pinned \<or> pin_direction = Some (move_amount, col_offset) then
        (case board_get (board gs) (row + move_amount) (col + col_offset) of Inl e \<Rightarrow> Inl e
         | Inr target \<Rightarrow>
             (case (if fst target = enemy_color
                    then (case mkMove (row, col) (row + move_amount, col + col_offset) (board gs)
                                 False False of
                            Inl e \<Rightarrow> Inl e | Inr m \<Rightarrow> Inr (moves @ [m]))
                    else Inr moves) of
                Inl e \<Rightarrow> Inl e
              | Inr moves1 \<Rightarrow>
                  if Some (row + move_amount, col + col_offset) = enpassant_possible gs
                  then addEnPassantIfValid gs row col move_amount col_offset king_row king_col
                         moves1 enemy_color
                  else Inr moves1))
      else Inr moves)"

definition getPawnMoves :: "GameState \<Rightarrow> int \<Rightarrow> int \<Rightarrow> Move list \<Rightarrow> py_error + (GameState \<times> Move list)" where
  "getPawnMoves gs0 row col moves =
     (let pin = find_pin (pins gs0) row col;
          piece_pinned = (pin \<noteq> None);
          pin_direction = pin_dir pin;
          gs = drop_pin gs0 pin;
          move_amount = (if white_to_move gs then -1 else 1);
          home_row = (if white_to_move gs then 6 else 1);
          enemy_color = (if white_to_move gs then CHR ''b'' else CHR ''w'');
          king = (if white_to_move gs then white_king_location gs else black_king_location gs)
      in case pawnAdvance gs row col piece_pinned pin_direction move_amount home_row moves of
           Inl e \<Rightarrow> Inl e
         | Inr moves1 \<Rightarrow>
             (case (if col - 1 \<ge> 0
                    then pawnCapture gs row col piece_pinned pin_direction move_amount (-1)
                           (fst king) (snd king) enemy_color moves1
                    else Inr moves1) of
                Inl e \<Rightarrow> Inl e
              | Inr moves2 \<Rightarrow>
                  (case (if col + 1 \<le> 7
                         then pawnCapture gs row col piece_pinned pin_direction move_amount 1
                                (fst king) (snd king) enemy_color moves2
                         else Inr moves2) of
                     Inl e \<Rightarrow> Inl e
                   | Inr moves3 \<Rightarrow> Inr (gs, moves3))))"

text \<open>
  The loop \<open>for i in range(1, 8)\<close> of a sliding piece along one direction.  When the
  piece is pinned off this direction the loop body does nothing and runs on to the edge.
\<close>

fun slide :: "board \<Rightarrow> char \<Rightarrow> int \<Rightarrow> int \<Rightarrow> bool \<Rightarrow> (int \<times> int) option \<Rightarrow> int \<times> int
    \<Rightarrow> int list \<Rightarrow> Move list \<Rightarrow> py_error + Move list" where
  "slide b enemy_color row col piece_pinned pin_direction direction [] moves = Inr moves"
| "slide b enemy_color row col piece_pinned pin_direction direction (i # ds) moves =
     (let end_row = row + fst direction * i;
          end_col = col + snd direction * i
      in if \<not> (0 \<le> end_row \<and> end_row \<le> 7 \<and> 0 \<le> end_col \<and> end_col \<le> 7) then Inr moves
         else if \<not> piece_pinned \<or> pin_direction = Some direction
                 \<or> pin_direction = Some (- fst direction, - snd direction) then
           (case board_get b end_row end_col of Inl e \<Rightarrow> Inl e
            | Inr end_piece \<Rightarrow>
                if end_piece = EMPTY_SQUARE then
                  (case mkMove (row, col) (end_row, end_col) b False False of Inl e \<Rightarrow> Inl e
                   | Inr m \<Rightarrow> slide b enemy_color row col piece_pinned pin_direction direction ds
                               (moves @ [m]))
                else if fst end_piece = enemy_color then
                  (case mkMove (row, col) (end_row, end_col) b False False of Inl e \<Rightarrow> Inl e
                   | Inr m \<Rightarrow> Inr (moves @ [m]))
                else Inr moves)
         else slide b enemy_color row col piece_pinned pin_direction direction ds moves)"

fun slideAll :: "board \<Rightarrow> char \<Rightarrow> int \<Rightarrow> int \<Rightarrow> bool \<Rightarrow> (int \<times> int) option \<Rightarrow> (int \<times> int) list
    \<Rightarrow> Move list \<Rightarrow> py_error + Move list" where
  "slideAll b enemy_color row col piece_pinned pin_direction [] moves = Inr moves"
| "slideAll b enemy_color row col piece_pinned pin_direction (direction # dirs) moves =
     (case slide b enemy_color row col piece_pinned pin_direction direction [1, 2, 3, 4, 5, 6, 7] moves of
        Inl e \<Rightarrow> Inl e
      | Inr moves' \<Rightarrow> slideAll b enemy_color row col piece_pinned pin_direction dirs moves')"

definition getRookMoves :: "GameState \<Rightarrow> int \<Rightarrow> int \<Rightarrow> Move list \<Rightarrow> py_error + (GameState \<times> Move list)" where
  "getRookMoves gs0 row col moves =
     (let pin = find_pin (pins gs0) row col;
          piece_pinned = (pin \<noteq> None);
          pin_direction = pin_dir pin
      in case (if piece_pinned
               then (case board_get (board gs0) row col of Inl e \<Rightarrow> Inl e
                     | Inr pc \<Rightarrow> Inr (if snd pc \<noteq> CHR ''Q'' then drop_pin gs0 pin else gs0))
               else Inr gs0) of
           Inl e \<Rightarrow> Inl e
         | Inr gs \<Rightarrow>
             (let enemy_color = (if white_to_move gs then CHR ''b'' else CHR ''w'')
              in case slideAll (board gs) enemy_color row col piece_pinned pin_direction
                        [(-1, 0), (0, -1), (1, 0), (0, 1)] moves of
                   Inl e \<Rightarrow> Inl e
                 | Inr moves' \<Rightarrow> Inr (gs, moves')))"

definition getBishopMoves :: "GameState \<Rightarrow> int \<Rightarrow> int \<Rightarrow> Move list \<Rightarrow> py_error + (GameState \<times> Move list)" where
  "getBishopMoves gs0 row col moves =
     (let pin = find_pin (pins gs0) row col;
          piece_pinned = (pin \<noteq> None);
          pin_direction = pin_dir pin;
          gs = drop_pin gs0 pin;
          enemy_color = (if white_to_move gs then CHR ''b'' else CHR ''w'')
      in case slideAll (board gs) enemy_color row col piece_pinned pin_direction
                [(-1, -1), (-1, 1), (1, 1), (1, -1)] moves of
           Inl e \<Rightarrow> Inl e
         | Inr moves' \<Rightarrow> Inr (gs, moves'))"

definition getQueenMoves :: "GameState \<Rightarrow> int \<Rightarrow> int \<Rightarrow> Move list \<Rightarrow> py_error + (GameState \<times> Move list)" where
  "getQueenMoves gs row col moves =
     (case getRookMoves gs row col moves of Inl e \<Rightarrow> Inl e
      | Inr (gs1, moves1) \<Rightarrow> getBishopMoves gs1 row col moves1)"

fun knightLoop :: "board \<Rightarrow> char \<Rightarrow> int \<Rightarrow> int \<Rightarrow> bool \<Rightarrow> (int \<times> int) list \<Rightarrow> Move list
    \<Rightarrow> py_error + Move list" where
  "knightLoop b ally_color row col piece_pinned [] moves = Inr moves"
| "knightLoop b ally_color row col piece_pinned (mv # mvs) moves =
     (let end_row = row + fst mv; end_col = col + snd mv
      in if 0 \<le> end_row \<and> end_row \<le> 7 \<and> 0 \<le> end_col \<and> end_col \<le> 7 \<and> \<not> piece_pinned then
           (case board_get b end_row end_col of Inl e \<Rightarrow> Inl e
            | Inr end_piece \<Rightarrow>
                if fst end_piece \<noteq> ally_color then
                  (case mkMove (row, col) (end_row, end_col) b False False of Inl e \<Rightarrow> Inl e
                   | Inr m \<Rightarrow> knightLoop b ally_color row col piece_pinned mvs (moves @ [m]))
                else knightLoop b ally_color row col piece_pinned mvs moves)
         else knightLoop b ally_color row col piece_pinned mvs moves)"

definition getKnightMoves :: "GameState \<Rightarrow> int \<Rightarrow> int \<Rightarrow> Move list \<Rightarrow> py_error + (GameState \<times> Move list)" where
  "getKnightMoves gs0 row col moves =
     (let pin = find_pin (pins gs0) row col;
          piece_pinned = (pin \<noteq> None);
          gs = drop_pin gs0 pin;
          ally_color = (if white_to_move gs then CHR ''w'' else CHR ''b'')
      in case knightLoop (board gs) ally_color row col piece_pinned knight_moves moves of
           Inl e \<Rightarrow> Inl e
         | Inr moves' \<Rightarrow> Inr (gs, moves'))"

text \<open>
  \<open>getKingMoves\<close>: the loop over the eight neighbours.  For each candidate the king's
  location field is set to the candidate square, the detector is run through
  \<open>GameState.checkForPinsAndChecks\<close> (which stores its three results in the state),
  and the field is set back to \<open>(row, col)\<close>.
\<close>

definition set_king :: "GameState \<Rightarrow> char \<Rightarrow> int \<times> int \<Rightarrow> GameState" where
  "set_king gs ally_color sq =
     (if ally_color = CHR ''w'' then gs\<lparr>white_king_location := sq\<rparr>
      else gs\<lparr>black_king_location := sq\<rparr>)"

fun kingLoop :: "GameState \<Rightarrow> char \<Rightarrow> int \<Rightarrow> int \<Rightarrow> (int \<times> int) list \<Rightarrow> Move list
    \<Rightarrow> py_error + (GameState \<times> Move list)" where
  "kingLoop gs ally_color row col [] moves = Inr (gs, moves)"
| "kingLoop gs ally_color row col (mv # mvs) moves =
     (let end_row = row + fst mv; end_col = col + snd mv
      in if 0 \<le> end_row \<and> end_row \<le> 7 \<and> 0 \<le> end_col \<and> end_col \<le> 7 then
           (case board_get (board gs) end_row end_col of Inl e \<Rightarrow> Inl e
            | Inr end_piece \<Rightarrow>
                if fst end_piece \<noteq> ally_color then
                  (case checkForPinsAndChecks (set_king gs ally_color (end_row, end_col)) of
                     Inl e \<Rightarrow> Inl e
                   | Inr (gs1, in_chk, pns, chks) \<Rightarrow>
                       (case (if \<not> in_chk
                              then (case mkMove (row, col) (end_row, end_col) (board gs1) False False of
                                      Inl e \<Rightarrow> Inl e | Inr m \<Rightarrow> Inr (moves @ [m]))
                              else Inr moves) of
                          Inl e \<Rightarrow> Inl e
                        | Inr moves' \<Rightarrow>
                            kingLoop (set_king gs1 ally_color (row, col)) ally_color row col mvs moves'))
                else kingLoop gs ally_color row col mvs moves)
         else kingLoop gs ally_color row col mvs moves)"

definition king_offsets :: "(int \<times> int) list" where
  "king_offsets = zip [-1, -1, -1, 0, 0, 1, 1, 1] [-1, 0, 1, -1, 1, -1, 0, 1]"

definition getKingMoves :: "GameState \<Rightarrow> int \<Rightarrow> int \<Rightarrow> Move list \<Rightarrow> py_error + (GameState \<times> Move list)" where
  "getKingMoves gs row col moves =
     kingLoop gs (if white_to_move gs then CHR ''w'' else CHR ''b'') row col king_offsets moves"

section \<open>The engine (ChessEngine.py)\<close>

subsection \<open>Applying and undoing a move\<close>

text \<open>
  \<open>updateCastleRights\<close> assigns to fields of the object \<open>current_castling_rights\<close>
  refers to; the model computes the object's new fields and writes them back at its
  address.
\<close>

definition updateRights :: "CastleRights \<Rightarrow> Move \<Rightarrow> CastleRights" where
  "updateRights r0 move =
     (let r1 = (if piece_captured move = (WHITE_COLOR, ROOK) then
                  (if end_col move = 0 then r0\<lparr>wqs := False\<rparr>
                   else if end_col move = 7 then r0\<lparr>wks := False\<rparr> else r0)
                else if piece_captured move = (BLACK_COLOR, ROOK) then
                  (if end_col move = 0 then r0\<lparr>bqs := False\<rparr>
                   else if end_col move = 7 then r0\<lparr>bks := False\<rparr> else r0)
                else r0)
      in if piece_moved move = (WHITE_COLOR, KING) then r1\<lparr>wqs := False, wks := False\<rparr>
         else if piece_moved move = (BLACK_COLOR, KING) then r1\<lparr>bqs := False, bks := False\<rparr>
         else if piece_moved move = (WHITE_COLOR, ROOK) then
           (if start_row move = 7 then
              (if start_col move = 0 then r1\<lparr>wqs := False\<rparr>
               else if start_col move = 7 then r1\<lparr>wks := False\<rparr> else r1)
            else r1)
         else if piece_moved move = (BLACK_COLOR, ROOK) then
           (if start_row move = 0 then
              (if start_col move = 0 then r1\<lparr>bqs := False\<rparr>
               else if start_col move = 7 then r1\<lparr>bks := False\<rparr> else r1)
            else r1)
         else r1)"

definition updateCastleRights :: "GameState \<Rightarrow> Move \<Rightarrow> GameState" where
  "updateCastleRights gs move =
     gs\<lparr>cr_store := (cr_store gs)(current_castling_rights gs := updateRights (cur_rights gs) move)\<rparr>"

text \<open>The castling part of \<open>makeMove\<close>: the rook is moved on the board.\<close>

definition castleRook :: "board \<Rightarrow> Move \<Rightarrow> py_error + board" where
  "castleRook b move =
     (if end_col move - start_col move = 2 then
        (case board_get b (end_row move) (end_col move + 1) of Inl e \<Rightarrow> Inl e
         | Inr rook \<Rightarrow>
             (case board_set b (end_row move) (end_col move - 1) rook of Inl e \<Rightarrow> Inl e
              | Inr b1 \<Rightarrow> board_set b1 (end_row move) (end_col move + 1) EMPTY_SQUARE))
      else
        (case board_get b (end_row move) (end_col move - 2) of Inl e \<Rightarrow> Inl e
         | Inr rook \<Rightarrow>
             (case board_set b (end_row move) (end_col move + 1) rook of Inl e \<Rightarrow> Inl e
              | Inr b1 \<Rightarrow> board_set b1 (end_row move) (end_col move - 2) EMPTY_SQUARE)))"

definition makeMove :: "GameState \<Rightarrow> Move \<Rightarrow> py_error + GameState" where
  "makeMove gs move =
     (case board_set (board gs) (start_row move) (start_col move) EMPTY_SQUARE of Inl e \<Rightarrow> Inl e
      | Inr b1 \<Rightarrow>
     (case board_set b1 (end_row move) (end_col move) (piece_moved move) of Inl e \<Rightarrow> Inl e
      | Inr b2 \<Rightarrow>
     (let gs1 = gs\<lparr>move_log := move_log gs @ [move], white_to_move := \<not> white_to_move gs\<rparr>;
          gs2 = (if piece_moved move = (WHITE_COLOR, KING)
                 then gs1\<lparr>white_king_location := (end_row move, end_col move)\<rparr>
                 else if piece_moved move = (BLACK_COLOR, KING)
                 then gs1\<lparr>black_king_location := (end_row move, end_col move)\<rparr>
                 else gs1)
      in case (if is_pawn_promotion move
               then board_set b2 (end_row move) (end_col move) (fst (piece_moved move), QUEEN)
               else Inr b2) of Inl e \<Rightarrow> Inl e
         | Inr b3 \<Rightarrow>
        (case (if is_enpassant_move move
               then board_set b3 (start_row move) (end_col move) EMPTY_SQUARE
               else Inr b3) of Inl e \<Rightarrow> Inl e
         | Inr b4 \<Rightarrow>
        (let ep = (if snd (piece_moved move) = PAWN \<and> \<bar>start_row move - end_row move\<bar> = 2
                   then Some ((start_row move + end_row move) div 2, start_col move)
                   else None)
         in case (if is_castle_move move then castleRook b4 move else Inr b4) of Inl e \<Rightarrow> Inl e
            | Inr b5 \<Rightarrow>
           (let gs3 = gs2\<lparr>board := b5, enpassant_possible := ep,
                           enpassant_possible_log := enpassant_possible_log gs2 @ [ep]\<rparr>;
                gs4 = updateCastleRights gs3 move;
                (gs5, a) = new_rights gs4 (cur_rights gs4)
            in Inr (gs5\<lparr>castle_rights_log := castle_rights_log gs5 @ [a]\<rparr>)))))))"

text \<open>The castling part of \<open>undoMove\<close>: the rook is moved back.\<close>

definition uncastleRook :: "board \<Rightarrow> Move \<Rightarrow> py_error + board" where
  "uncastleRook b move =
     (if end_col move - start_col move = 2 then
        (case board_get b (end_row move) (end_col move - 1) of Inl e \<Rightarrow> Inl e
         | Inr rook \<Rightarrow>
             (case board_set b (end_row move) (end_col move + 1) rook of Inl e \<Rightarrow> Inl e
              | Inr b1 \<Rightarrow> board_set b1 (end_row move) (end_col move - 1) EMPTY_SQUARE))
      else
        (case board_get b (end_row move) (end_col move + 1) of Inl e \<Rightarrow> Inl e
         | Inr rook \<Rightarrow>
             (case board_set b (end_row move) (end_col move - 2) rook of Inl e \<Rightarrow> Inl e
              | Inr b1 \<Rightarrow> board_set b1 (end_row move) (end_col move + 1) EMPTY_SQUARE)))"

text \<open>
  \<open>undoMove\<close>.  With an empty \<open>move_log\<close> it returns at once.  \<open>pop()\<close> of an empty
  list and \<open>[-1]\<close> of an empty list raise IndexError.  The last assignment to
  \<open>current_castling_rights\<close> stores the address of the log's last object: no copy is made.
\<close>

definition undoMove :: "GameState \<Rightarrow> py_error + GameState" where
  "undoMove gs =
     (if move_log gs = [] then Inr gs
      else
        (let move = last (move_log gs);
             gs1 = gs\<lparr>move_log := butlast (move_log gs)\<rparr>
         in case board_set (board gs1) (start_row move) (start_col move) (piece_moved move) of
              Inl e \<Rightarrow> Inl e
            | Inr b1 \<Rightarrow>
           (case board_set b1 (end_row move) (end_col move) (piece_captured move) of Inl e \<Rightarrow> Inl e
            | Inr b2 \<Rightarrow>
           (let gs2 = gs1\<lparr>white_to_move := \<not> white_to_move gs1\<rparr>;
                gs3 = (if piece_moved move = (WHITE_COLOR, KING)
                       then gs2\<lparr>white_king_location := (start_row move, start_col move)\<rparr>
                       else if piece_moved move = (BLACK_COLOR, KING)
                       then gs2\<lparr>black_king_location := (start_row move, start_col move)\<rparr>
                       else gs2)
            in case (if is_enpassant_move move
                     then (case board_set b2 (end_row move) (end_col move) EMPTY_SQUARE of
                             Inl e \<Rightarrow> Inl e
                           | Inr b \<Rightarrow> board_set b (start_row move) (end_col move) (piece_captured move))
                     else Inr b2) of Inl e \<Rightarrow> Inl e
               | Inr b3 \<Rightarrow>
                   if enpassant_possible_log gs3 = [] \<or> butlast (enpassant_possible_log gs3) = []
                   then Inl IndexError
                   else if castle_rights_log gs3 = [] \<or> butlast (castle_rights_log gs3) = []
                   then Inl IndexError
                   else
                     (let gs4 = gs3\<lparr>enpassant_possible_log := butlast (enpassant_possible_log gs3),
                                     enpassant_possible := last (butlast (enpassant_possible_log gs3)),
                                     castle_rights_log := butlast (castle_rights_log gs3),
                                     current_castling_rights := last (butlast (castle_rights_log gs3))\<rparr>
                      in case (if is_castle_move move then uncastleRook b3 move else Inr b3) of
                           Inl e \<Rightarrow> Inl e
                         | Inr b4 \<Rightarrow>
                             Inr (gs4\<lparr>board := b4, checkmate := False, stalemate := False\<rparr>))))))"

subsection \<open>Pseudo-legal moves and attacked squares\<close>

text \<open>The dictionary \<open>moveFunctions\<close>; a key that is not one of the six kinds raises KeyError.\<close>

definition moveFunctions :: "char \<Rightarrow> GameState \<Rightarrow> int \<Rightarrow> int \<Rightarrow> Move list
    \<Rightarrow> py_error + (GameState \<times> Move list)" where
  "moveFunctions piece gs row col moves =
     (if piece = PAWN then getPawnMoves gs row col moves
      else if piece = ROOK then getRookMoves gs row col moves
      else if piece = KNIGHT then getKnightMoves gs row col moves
      else if piece = BISHOP then getBishopMoves gs row col moves
      else if piece = QUEEN then getQueenMoves gs row col moves
      else if piece = KING then getKingMoves gs row col moves
      else Inl KeyError)"

text \<open>The two nested loops of \<open>getAllPossibleMoves\<close>, over the squares in row-major order.\<close>

definition all_squares :: "(int \<times> int) list" where
  "all_squares = concat (map (\<lambda>row. map (\<lambda>col. (row, col)) [0, 1, 2, 3, 4, 5, 6, 7])
                              [0, 1, 2, 3, 4, 5, 6, 7])"

fun squaresLoop :: "GameState \<Rightarrow> (int \<times> int) list \<Rightarrow> Move list \<Rightarrow> py_error + (GameState \<times> Move list)" where
  "squaresLoop gs [] moves = Inr (gs, moves)"
| "squaresLoop gs (sq # sqs) moves =
     (case board_get (board gs) (fst sq) (snd sq) of Inl e \<Rightarrow> Inl e
      | Inr pc \<Rightarrow>
          if (fst pc = WHITE_COLOR \<and> white_to_move gs) \<or> (fst pc = BLACK_COLOR \<and> \<not> white_to_move gs)
          then (case moveFunctions (snd pc) gs (fst sq) (snd sq) moves of Inl e \<Rightarrow> Inl e
                | Inr (gs', moves') \<Rightarrow> squaresLoop gs' sqs moves')
          else squaresLoop gs sqs moves)"

definition getAllPossibleMoves :: "GameState \<Rightarrow> py_error + (GameState \<times> Move list)" where
  "getAllPossibleMoves gs = squaresLoop gs all_squares []"

definition squareUnderAttack :: "GameState \<Rightarrow> int \<Rightarrow> int \<Rightarrow> py_error + (GameState \<times> bool)" where
  "squareUnderAttack gs row col =
     (case getAllPossibleMoves (gs\<lparr>white_to_move := \<not> white_to_move gs\<rparr>) of Inl e \<Rightarrow> Inl e
      | Inr (gs1, opponents_moves) \<Rightarrow>
          Inr (gs1\<lparr>white_to_move := \<not> white_to_move gs1\<rparr>,
               list_ex (\<lambda>move. end_row move = row \<and> end_col move = col) opponents_moves))"

definition inCheck :: "GameState \<Rightarrow> py_error + (GameState \<times> bool)" where
  "inCheck gs =
     (if white_to_move gs
      then squareUnderAttack gs (fst (white_king_location gs)) (snd (white_king_location gs))
      else squareUnderAttack gs (fst (black_king_location gs)) (snd (black_king_location gs)))"

subsection \<open>Castling moves\<close>

definition getKingsideCastleMoves :: "GameState \<Rightarrow> int \<Rightarrow> int \<Rightarrow> Move list
    \<Rightarrow> py_error + (GameState \<times> Move list)" where
  "getKingsideCastleMoves gs row col moves =
     (case board_get (board gs) row (col + 1) of Inl e \<Rightarrow> Inl e
      | Inr p1 \<Rightarrow>
          if p1 \<noteq> EMPTY_SQUARE then Inr (gs, moves)
          else
            (case board_get (board gs) row (col + 2) of Inl e \<Rightarrow> Inl e
             | Inr p2 \<Rightarrow>
                 if p2 \<noteq> EMPTY_SQUARE then Inr (gs, moves)
                 else
                   (case squareUnderAttack gs row (col + 1) of Inl e \<Rightarrow> Inl e
                    | Inr (gs1, a1) \<Rightarrow>
                        if a1 then Inr (gs1, moves)
                        else
                          (case squareUnderAttack gs1 row (col + 2) of Inl e \<Rightarrow> Inl e
                           | Inr (gs2, a2) \<Rightarrow>
                               if a2 then Inr (gs2, moves)
                               else
                                 (case mkMove (row, col) (row, col + 2) (board gs2) False True of
                                    Inl e \<Rightarrow> Inl e
                                  | Inr m \<Rightarrow> Inr (gs2, moves @ [m]))))))"

definition getQueensideCastleMoves :: "GameState \<Rightarrow> int \<Rightarrow> int \<Rightarrow> Move list
    \<Rightarrow> py_error + (GameState \<times> Move list)" where
  "getQueensideCastleMoves gs row col moves =
     (case board_get (board gs) row (col - 1) of Inl e \<Rightarrow> Inl e
      | Inr p1 \<Rightarrow>
          if p1 \<noteq> EMPTY_SQUARE then Inr (gs, moves)
          else
            (case board_get (board gs) row (col - 2) of Inl e \<Rightarrow> Inl e
             | Inr p2 \<Rightarrow>
                 if p2 \<noteq> EMPTY_SQUARE then Inr (gs, moves)
                 else
                   (case board_get (board gs) row (col - 3) of Inl e \<Rightarrow> Inl e
                    | Inr p3 \<Rightarrow>
                        if p3 \<noteq> EMPTY_SQUARE then Inr (gs, moves)
                        else
                          (case squareUnderAttack gs row (col - 1) of Inl e \<Rightarrow> Inl e
                           | Inr (gs1, a1) \<Rightarrow>
                               if a1 then Inr (gs1, moves)
                               else
                                 (case squareUnderAttack gs1 row (col - 2) of Inl e \<Rightarrow> Inl e
                                  | Inr (gs2, a2) \<Rightarrow>
                                      if a2 then Inr (gs2, moves)
                                      else
                                        (case mkMove (row, col) (row, col - 2) (board gs2) False True of
                                           Inl e \<Rightarrow> Inl e
                                         | Inr m \<Rightarrow> Inr (gs2, moves @ [m])))))))"

definition getCastleMoves :: "GameState \<Rightarrow> int \<Rightarrow> int \<Rightarrow> Move list
    \<Rightarrow> py_error + (GameState \<times> Move list)" where
  "getCastleMoves gs row col moves =
     (case squareUnderAttack gs row col of Inl e \<Rightarrow> Inl e
      | Inr (gs1, attacked) \<Rightarrow>
          if attacked then Inr (gs1, moves)
          else
            (case (if (white_to_move gs1 \<and> wks (cur_rights gs1))
                      \<or> (\<not> white_to_move gs1 \<and> bks (cur_rights gs1))
                   then getKingsideCastleMoves gs1 row col moves
                   else Inr (gs1, moves)) of
               Inl e \<Rightarrow> Inl e
             | Inr (gs2, moves2) \<Rightarrow>
                 if (white_to_move gs2 \<and> wqs (cur_rights gs2))
                    \<or> (\<not> white_to_move gs2 \<and> bqs (cur_rights gs2))
                 then getQueensideCastleMoves gs2 row col moves2
                 else Inr (gs2, moves2)))"

subsection \<open>The legal move filter\<close>

text \<open>
  The loop that collects \<open>valid_squares\<close> along the checking ray, from the king:
  \<open>for i in range(1, 8)\<close>, stopping after the square of the checking piece.
\<close>

fun validSquares :: "int \<Rightarrow> int \<Rightarrow> ray \<Rightarrow> int list \<Rightarrow> (int \<times> int) list \<Rightarrow> (int \<times> int) list" where
  "validSquares king_row king_col check [] valid_squares = valid_squares"
| "validSquares king_row king_col check (i # ds) valid_squares =
     (let valid_square = (king_row + fst (snd (snd check)) * i, king_col + snd (snd (snd check)) * i)
      in if valid_square = (fst check, fst (snd check)) then valid_squares @ [valid_square]
         else validSquares king_row king_col check ds (valid_squares @ [valid_square]))"

text \<open>\<open>moves.remove(x)\<close>: deletes the first element that \<open>__eq__\<close> makes equal to \<open>x\<close>.\<close>

fun list_remove :: "Move list \<Rightarrow> Move \<Rightarrow> Move list" where
  "list_remove [] x = []"
| "list_remove (y # ys) x = (if move_eq y x then ys else y # list_remove ys x)"

text \<open>
  The loop \<open>for i in range(len(moves) - 1, -1, -1)\<close> that removes the moves which
  neither block nor capture; \<open>n\<close> counts the indices still to visit, the next one being
  \<open>n - 1\<close>.
\<close>

fun removeInvalid :: "Move list \<Rightarrow> (int \<times> int) list \<Rightarrow> nat \<Rightarrow> py_error + Move list" where
  "removeInvalid moves valid_squares 0 = Inr moves"
| "removeInvalid moves valid_squares (Suc i) =
     (case py_get moves (int i) of Inl e \<Rightarrow> Inl e
      | Inr m \<Rightarrow>
          if snd (piece_moved m) \<noteq> KING \<and> (end_row m, end_col m) \<notin> set valid_squares
          then removeInvalid (list_remove moves m) valid_squares i
          else removeInvalid moves valid_squares i)"

text \<open>The branch of \<open>getValidMoves\<close> for \<open>in_check\<close> with exactly one check.\<close>

definition singleCheckMoves :: "GameState \<Rightarrow> int \<Rightarrow> int \<Rightarrow> py_error + (GameState \<times> Move list)" where
  "singleCheckMoves gs king_row king_col =
     (case getAllPossibleMoves gs of Inl e \<Rightarrow> Inl e
      | Inr (gs1, moves) \<Rightarrow>
          (case py_get (checks gs1) 0 of Inl e \<Rightarrow> Inl e
           | Inr check \<Rightarrow>
               (let check_row = fst check; check_col = fst (snd check)
                in case board_get (board gs1) check_row check_col of Inl e \<Rightarrow> Inl e
                   | Inr piece_checking \<Rightarrow>
                       (let valid_squares =
                              (if snd piece_checking = KNIGHT then [(check_row, check_col)]
                               else validSquares king_row king_col check [1, 2, 3, 4, 5, 6, 7] [])
                        in case removeInvalid moves valid_squares (length moves) of
                             Inl e \<Rightarrow> Inl e
                           | Inr moves' \<Rightarrow> Inr (gs1, moves')))))"

text \<open>The part of \<open>getValidMoves\<close> that builds \<open>moves\<close>, after the detector has run.\<close>

definition generateMoves :: "GameState \<Rightarrow> py_error + (GameState \<times> Move list)" where
  "generateMoves gs =
     (let king = (if white_to_move gs then white_king_location gs else black_king_location gs)
      in if in_check gs then
           (if length (checks gs) = 1 then singleCheckMoves gs (fst king) (snd king)
            else getKingMoves gs (fst king) (snd king) [])
         else
           (case getAllPossibleMoves gs of Inl e \<Rightarrow> Inl e
            | Inr (gs1, moves) \<Rightarrow>
                if white_to_move gs1
                then getCastleMoves gs1 (fst (white_king_location gs1)) (snd (white_king_location gs1)) moves
                else getCastleMoves gs1 (fst (black_king_location gs1)) (snd (black_king_location gs1)) moves))"

text \<open>The part of \<open>getValidMoves\<close> under the comment "Determine game status".\<close>

definition setStatus :: "GameState \<Rightarrow> Move list \<Rightarrow> py_error + GameState" where
  "setStatus gs moves =
     (if moves = [] then
        (case inCheck gs of Inl e \<Rightarrow> Inl e
         | Inr (gs1, attacked) \<Rightarrow>
             if attacked then Inr (gs1\<lparr>checkmate := True\<rparr>) else Inr (gs1\<lparr>stalemate := True\<rparr>))
      else Inr (gs\<lparr>checkmate := False, stalemate := False\<rparr>))"

text \<open>
  \<open>getValidMoves\<close>: \<open>temp_castle_rights\<close> is a new object holding a copy of the current
  rights; the last statement makes it the current object.
\<close>

definition getValidMoves :: "GameState \<Rightarrow> py_error + (GameState \<times> Move list)" where
  "getValidMoves gs0 =
     (let (gs1, temp_castle_rights) = new_rights gs0 (cur_rights gs0)
      in case checkForPinsAndChecks gs1 of Inl e \<Rightarrow> Inl e
         | Inr (gs2, in_chk, pns, chks) \<Rightarrow>
             (case generateMoves gs2 of Inl e \<Rightarrow> Inl e
              | Inr (gs3, moves) \<Rightarrow>
                  (case setStatus gs3 moves of Inl e \<Rightarrow> Inl e
                   | Inr gs4 \<Rightarrow>
                       Inr (gs4\<lparr>current_castling_rights := temp_castle_rights\<rparr>, moves))))"

section \<open>Evaluation and search (evaluation.py, ChessAI.py)\<close>

text \<open>
  The constants module is not part of the sources at hand; the values the evaluation and
  the search import from it are the fields of a parameter.  The two tables are Python
  dictionaries: a missing key raises KeyError.  Scores are numbers that the search only
  negates and compares; they are integers here.
\<close>

record Constants =
  CHECKMATE_SCORE :: int
  STALEMATE_SCORE :: int
  AI_DEPTH :: nat
  PIECE_VALUES :: "char \<Rightarrow> int option"
  PIECE_POSITION_SCORES :: "piece \<Rightarrow> int list list option"

definition pieceScore :: "Constants \<Rightarrow> piece \<Rightarrow> int \<Rightarrow> int \<Rightarrow> py_error + int" where
  "pieceScore C pc row col =
     (case PIECE_VALUES C (snd pc) of None \<Rightarrow> Inl KeyError
      | Some piece_value \<Rightarrow>
          (case (if snd pc \<noteq> CHR ''K''
                 then (case PIECE_POSITION_SCORES C pc of None \<Rightarrow> Inl KeyError
                       | Some table \<Rightarrow>
                           (case py_get table row of Inl e \<Rightarrow> Inl e | Inr r \<Rightarrow> py_get r col))
                 else Inr 0) of
             Inl e \<Rightarrow> Inl e
           | Inr piece_position_score \<Rightarrow> Inr (piece_value + piece_position_score)))"

fun scoreRow :: "Constants \<Rightarrow> piece list \<Rightarrow> int \<Rightarrow> int \<Rightarrow> int \<Rightarrow> py_error + int" where
  "scoreRow C [] row col score = Inr score"
| "scoreRow C (pc # pcs) row col score =
     (if pc \<noteq> EMPTY_SQUARE then
        (case pieceScore C pc row col of Inl e \<Rightarrow> Inl e
         | Inr total_piece_value \<Rightarrow>
             scoreRow C pcs row (col + 1)
               (if fst pc = CHR ''w'' then score + total_piece_value else score - total_piece_value))
      else scoreRow C pcs row (col + 1) score)"

fun scoreRows :: "Constants \<Rightarrow> piece list list \<Rightarrow> int \<Rightarrow> int \<Rightarrow> py_error + int" where
  "scoreRows C [] row score = Inr score"
| "scoreRows C (r # rs) row score =
     (case scoreRow C r row 0 score of Inl e \<Rightarrow> Inl e
      | Inr score' \<Rightarrow> scoreRows C rs (row + 1) score')"

definition scoreBoard :: "Constants \<Rightarrow> GameState \<Rightarrow> py_error + int" where
  "scoreBoard C gs =
     (if checkmate gs then
        (if white_to_move gs then Inr (- CHECKMATE_SCORE C) else Inr (CHECKMATE_SCORE C))
      else if stalemate gs then Inr (STALEMATE_SCORE C)
      else scoreRows C (board gs) 0 0)"

text \<open>
  \<open>findMoveNegaMaxAlphaBeta\<close>.  The module-level variable \<open>next_move\<close> is threaded
  through as an optional move (\<open>None\<close> is Python's \<open>None\<close>).  \<open>depth\<close> counts down to
  0; \<open>abLoop\<close> is the \<open>for move in valid_moves\<close> loop at depth \<open>Suc d\<close>, carrying
  \<open>max_score\<close> and \<open>alpha\<close>.
\<close>

fun findMoveNegaMaxAlphaBeta :: "Constants \<Rightarrow> GameState \<Rightarrow> Move option \<Rightarrow> Move list \<Rightarrow> nat
      \<Rightarrow> int \<Rightarrow> int \<Rightarrow> int \<Rightarrow> py_error + (int \<times> GameState \<times> Move option)"
  and abLoop :: "Constants \<Rightarrow> GameState \<Rightarrow> Move option \<Rightarrow> Move list \<Rightarrow> nat
      \<Rightarrow> int \<Rightarrow> int \<Rightarrow> int \<Rightarrow> int \<Rightarrow> py_error + (int \<times> GameState \<times> Move option)" where
  "findMoveNegaMaxAlphaBeta C gs next_move valid_moves 0 alpha beta turn_multiplier =
     (case scoreBoard C gs of Inl e \<Rightarrow> Inl e
      | Inr s \<Rightarrow> Inr (turn_multiplier * s, gs, next_move))"
| "findMoveNegaMaxAlphaBeta C gs next_move valid_moves (Suc d) alpha beta turn_multiplier =
     abLoop C gs next_move valid_moves d alpha beta turn_multiplier (- CHECKMATE_SCORE C)"
| "abLoop C gs next_move [] d alpha beta turn_multiplier max_score = Inr (max_score, gs, next_move)"
| "abLoop C gs next_move (move # rest) d alpha beta turn_multiplier max_score =
     (case makeMove gs move of Inl e \<Rightarrow> Inl e
      | Inr gs1 \<Rightarrow>
     (case getValidMoves gs1 of Inl e \<Rightarrow> Inl e
      | Inr (gs2, next_moves) \<Rightarrow>
     (case findMoveNegaMaxAlphaBeta C gs2 next_move next_moves d (- beta) (- alpha)
             (- turn_multiplier) of Inl e \<Rightarrow> Inl e
      | Inr (v, gs3, next_move1) \<Rightarrow>
          (let score = - v;
               max_score' = (if score > max_score then score else max_score);
               next_move2 = (if score > max_score \<and> Suc d = AI_DEPTH C then Some move else next_move1)
           in case undoMove gs3 of Inl e \<Rightarrow> Inl e
              | Inr gs4 \<Rightarrow>
                  (let alpha' = (if max_score' > alpha then max_score' else alpha)
                   in if alpha' \<ge> beta then Inr (max_score', gs4, next_move2)
                      else abLoop C gs4 next_move2 rest d alpha' beta turn_multiplier max_score')))))"

text \<open>
  \<open>findBestMove\<close>.  \<open>random.shuffle\<close> reorders \<open>valid_moves\<close> in place; the order it
  leaves is the argument \<open>shuffled\<close>, a permutation of \<open>valid_moves\<close>.  The result is
  what is put on \<open>return_queue\<close>.
\<close>

definition findBestMove :: "Constants \<Rightarrow> GameState \<Rightarrow> Move list \<Rightarrow> py_error + Move option" where
  "findBestMove C gs shuffled =
     (case findMoveNegaMaxAlphaBeta C gs None shuffled (AI_DEPTH C)
             (- CHECKMATE_SCORE C) (CHECKMATE_SCORE C) (if white_to_move gs then 1 else -1) of
        Inl e \<Rightarrow> Inl e
      | Inr (score, gs', next_move) \<Rightarrow> Inr next_move)"

text \<open>
  The exhaustive full-width negamax search that the pruned search is compared with.  It is
  not part of the sources: it is the loop of \<open>findMoveNegaMaxAlphaBeta\<close> over the same
  moves in the same order, with the same initial \<open>max_score\<close>, the same leaf score and the
  same recording of \<open>next_move\<close>, without \<open>alpha\<close>, \<open>beta\<close> and the \<open>break\<close>.
\<close>

fun findMoveNegaMax :: "Constants \<Rightarrow> GameState \<Rightarrow> Move option \<Rightarrow> Move list \<Rightarrow> nat
      \<Rightarrow> int \<Rightarrow> py_error + (int \<times> GameState \<times> Move option)"
  and fwLoop :: "Constants \<Rightarrow> GameState \<Rightarrow> Move option \<Rightarrow> Move list \<Rightarrow> nat
      \<Rightarrow> int \<Rightarrow> int \<Rightarrow> py_error + (int \<times> GameState \<times> Move option)" where
  "findMoveNegaMax C gs next_move valid_moves 0 turn_multiplier =
     (case scoreBoard C gs of Inl e \<Rightarrow> Inl e
      | Inr s \<Rightarrow> Inr (turn_multiplier * s, gs, next_move))"
| "findMoveNegaMax C gs next_move valid_moves (Suc d) turn_multiplier =
     fwLoop C gs next_move valid_moves d turn_multiplier (- CHECKMATE_SCORE C)"
| "fwLoop C gs next_move [] d turn_multiplier max_score = Inr (max_score, gs, next_move)"
| "fwLoop C gs next_move (move # rest) d turn_multiplier max_score =
     (case makeMove gs move of Inl e \<Rightarrow> Inl e
      | Inr gs1 \<Rightarrow>
     (case getValidMoves gs1 of Inl e \<Rightarrow> Inl e
      | Inr (gs2, next_moves) \<Rightarrow>
     (case findMoveNegaMax C gs2 next_move next_moves d (- turn_multiplier) of Inl e \<Rightarrow> Inl e
      | Inr (v, gs3, next_move1) \<Rightarrow>
          (let score = - v;
               max_score' = (if score > max_score then score else max_score);
               next_move2 = (if score > max_score \<and> Suc d = AI_DEPTH C then Some move else next_move1)
           in case undoMove gs3 of Inl e \<Rightarrow> Inl e
              | Inr gs4 \<Rightarrow> fwLoop C gs4 next_move2 rest d turn_multiplier max_score'))))"

section \<open>Positions\<close>

text \<open>
  Modelled from the spec: \<open>INITIAL_BOARD\<close>, \<open>WHITE_KING_START\<close> and
  \<open>BLACK_KING_START\<close> of the constants module, which is not among the sources.  The spec
  calls it the standard layout; \<open>Move.ranks_to_rows\<close> puts rank 8 in row 0, and the
  generators put the white pawns' home rank in row 6.
\<close>

definition back_rank :: "char \<Rightarrow> piece list" where
  "back_rank c = map (\<lambda>k. (c, k))
     [CHR ''R'', CHR ''N'', CHR ''B'', CHR ''Q'', CHR ''K'', CHR ''B'', CHR ''N'', CHR ''R'']"

definition INITIAL_BOARD :: board where
  "INITIAL_BOARD =
     [back_rank (CHR ''b''), replicate 8 (CHR ''b'', CHR ''p'')]
     @ replicate 4 (replicate 8 EMPTY_SQUARE)
     @ [replicate 8 (CHR ''w'', CHR ''p''), back_rank (CHR ''w'')]"

definition WHITE_KING_START :: "int \<times> int" where "WHITE_KING_START = (7, 4)"
definition BLACK_KING_START :: "int \<times> int" where "BLACK_KING_START = (0, 4)"

text \<open>
  \<open>GameState.__init__\<close>: the current rights are one object (address 0) and the log's
  only entry is another with the same fields (address 1).
\<close>

definition newGame :: GameState where
  "newGame =
     \<lparr> board = INITIAL_BOARD, white_to_move = True, move_log = [],
       white_king_location = WHITE_KING_START, black_king_location = BLACK_KING_START,
       checkmate = False, stalemate = False, in_check = False, pins = [], checks = [],
       enpassant_possible = None, enpassant_possible_log = [None],
       cr_store = (\<lambda>a. \<lparr>wks = True, bks = True, wqs = True, bqs = True\<rparr>),
       cr_next = 2, current_castling_rights = 0, castle_rights_log = [1] \<rparr>"

text \<open>
  Other positions are given by the pieces on an otherwise empty board, the side to move,
  the two king squares and the en-passant square; no castling right is left in them.
\<close>

definition empty_board :: board where
  "empty_board = replicate 8 (replicate 8 EMPTY_SQUARE)"

fun place :: "board \<Rightarrow> (int \<times> int \<times> piece) list \<Rightarrow> board" where
  "place b [] = b"
| "place b (x # xs) =
     (case board_set b (fst x) (fst (snd x)) (snd (snd x)) of Inl e \<Rightarrow> b | Inr b' \<Rightarrow> place b' xs)"

definition position :: "(int \<times> int \<times> piece) list \<Rightarrow> bool \<Rightarrow> int \<times> int \<Rightarrow> int \<times> int
    \<Rightarrow> (int \<times> int) option \<Rightarrow> GameState" where
  "position pcs wtm wk bk ep =
     \<lparr> board = place empty_board pcs, white_to_move = wtm, move_log = [],
       white_king_location = wk, black_king_location = bk,
       checkmate = False, stalemate = False, in_check = False, pins = [], checks = [],
       enpassant_possible = ep, enpassant_possible_log = [ep],
       cr_store = (\<lambda>a. \<lparr>wks = False, bks = False, wqs = False, bqs = False\<rparr>),
       cr_next = 2, current_castling_rights = 0, castle_rights_log = [1] \<rparr>"

text \<open>White king e1, black king e8, black knight d3; white to move.\<close>

definition knight_check_position :: GameState where
  "knight_check_position =
     position [(7, 4, (CHR ''w'', CHR ''K'')), (0, 4, (CHR ''b'', CHR ''K'')),
               (5, 3, (CHR ''b'', CHR ''N''))] True (7, 4) (0, 4) None"

text \<open>White king e4, black king e8, black pawn f3 (one row below the king); white to move.\<close>

definition pawn_behind_position :: GameState where
  "pawn_behind_position =
     position [(4, 4, (CHR ''w'', CHR ''K'')), (0, 4, (CHR ''b'', CHR ''K'')),
               (5, 5, (CHR ''b'', CHR ''p''))] True (4, 4) (0, 4) None"

text \<open>Building a move with the constructor from the current board, and applying it.\<close>

definition playMove :: "GameState \<Rightarrow> int \<times> int \<Rightarrow> int \<times> int \<Rightarrow> py_error + GameState" where
  "playMove gs src dst =
     (case mkMove src dst (board gs) False False of Inl e \<Rightarrow> Inl e | Inr m \<Rightarrow> makeMove gs m)"

text \<open>
  From the initial position: 1. e4 e5, then the knight move g1-f3 is applied and undone,
  as the search loop does with the first move it tries.
\<close>

definition after_probe :: "py_error + GameState" where
  "after_probe =
     (case playMove newGame (6, 4) (4, 4) of Inl e \<Rightarrow> Inl e
      | Inr g1 \<Rightarrow>
     (case playMove g1 (1, 4) (3, 4) of Inl e \<Rightarrow> Inl e
      | Inr g2 \<Rightarrow>
     (case playMove g2 (7, 6) (5, 5) of Inl e \<Rightarrow> Inl e
      | Inr g3 \<Rightarrow> undoMove g3)))"

text \<open>
  White king a5, white pawn e5, black pawn f5 (it has just advanced two squares, so the
  en-passant square is f6), black rook h5, black king e8; white to move.
\<close>

definition ep_discovery_position :: GameState where
  "ep_discovery_position =
     position [(3, 0, (CHR ''w'', CHR ''K'')), (0, 4, (CHR ''b'', CHR ''K'')),
               (3, 4, (CHR ''w'', CHR ''p'')), (3, 5, (CHR ''b'', CHR ''p'')),
               (3, 7, (CHR ''b'', CHR ''R''))] True (3, 0) (0, 4) (Some (2, 5))"

text \<open>White king e1, white pawn a2, black king e8, black knight d3; white to move.\<close>

definition knight_pawn_position :: GameState where
  "knight_pawn_position =
     position [(7, 4, (CHR ''w'', CHR ''K'')), (0, 4, (CHR ''b'', CHR ''K'')),
               (5, 3, (CHR ''b'', CHR ''N'')), (6, 0, (CHR ''w'', CHR ''p''))] True (7, 4) (0, 4) None"

text \<open>
  White king e1, white knight b1, black king a8, black rook e8 (giving check along the
  e-file), black bishop c4 (covering f1); white to move.
\<close>

definition rook_check_position :: GameState where
  "rook_check_position =
     position [(7, 4, (CHR ''w'', CHR ''K'')), (0, 0, (CHR ''b'', CHR ''K'')),
               (0, 4, (CHR ''b'', CHR ''R'')), (4, 2, (CHR ''b'', CHR ''B'')),
               (7, 1, (CHR ''w'', CHR ''N''))] True (7, 4) (0, 0) None"

text \<open>What the examples read off a move: the kind of the piece moved and the destination.\<close>

definition lands :: "Move \<Rightarrow> char \<times> int \<times> int" where
  "lands m = (snd (piece_moved m), end_row m, end_col m)"

section \<open>Relations between states\<close>

text \<open>
  \<open>agree gs gs'\<close>: the two states differ at most in the transient fields
  \<open>in_check\<close>, \<open>pins\<close> and \<open>checks\<close>.  \<open>kings_placed gs\<close>: wherever a king stands on
  the board (rows and columns 0 to 7), the location field of its colour holds that square.
\<close>

definition agree :: "GameState \<Rightarrow> GameState \<Rightarrow> bool" where
  "agree gs gs' =
     (board gs' = board gs \<and> white_to_move gs' = white_to_move gs \<and> move_log gs' = move_log gs \<and>
      white_king_location gs' = white_king_location gs \<and>
      black_king_location gs' = black_king_location gs \<and>
      enpassant_possible gs' = enpassant_possible gs \<and>
      enpassant_possible_log gs' = enpassant_possible_log gs \<and>
      cr_store gs' = cr_store gs \<and> cr_next gs' = cr_next gs \<and>
      current_castling_rights gs' = current_castling_rights gs \<and>
      castle_rights_log gs' = castle_rights_log gs \<and>
      checkmate gs' = checkmate gs \<and> stalemate gs' = stalemate gs)"

definition king_here :: "GameState \<Rightarrow> int \<times> int \<Rightarrow> bool" where
  "king_here gs sq =
     (case board_get (board gs) (fst sq) (snd sq) of Inl e \<Rightarrow> True
      | Inr pc \<Rightarrow>
          (if pc = (WHITE_COLOR, KING) then white_king_location gs = sq
           else if pc = (BLACK_COLOR, KING) then black_king_location gs = sq
           else True))"

definition kings_placed :: "GameState \<Rightarrow> bool" where
  "kings_placed gs = list_all (king_here gs) all_squares"

definition king_of :: "GameState \<Rightarrow> char \<Rightarrow> int \<times> int" where
  "king_of gs ally_color = (if ally_color = CHR ''w'' then white_king_location gs else black_king_location gs)"


text \<open>
  \<open>same_position gs gs'\<close>: the same board, side to move, king squares and en-passant
  square.
\<close>

definition same_position :: "GameState \<Rightarrow> GameState \<Rightarrow> bool" where
  "same_position gs gs' =
     (board gs' = board gs \<and> white_to_move gs' = white_to_move gs \<and>
      white_king_location gs' = white_king_location gs \<and>
      black_king_location gs' = black_king_location gs \<and>
      enpassant_possible gs' = enpassant_possible gs)"

text \<open>The position after 1. f3 e5 2. g4 Qh4, played from the initial position.\<close>

definition fools_mate :: GameState where
  "fools_mate =
     (case playMove newGame (6, 5) (5, 5) of Inl e \<Rightarrow> newGame
      | Inr g1 \<Rightarrow>
     (case playMove g1 (1, 4) (3, 4) of Inl e \<Rightarrow> newGame
      | Inr g2 \<Rightarrow>
     (case playMove g2 (6, 6) (4, 6) of Inl e \<Rightarrow> newGame
      | Inr g3 \<Rightarrow>
     (case playMove g3 (0, 3) (4, 7) of Inl e \<Rightarrow> newGame
      | Inr g4 \<Rightarrow> g4))))"


text \<open>
  An instance of the constants for the examples: the checkmate and stalemate scores are
  the ones the docstring of \<open>scoreBoard\<close> names (1000 and 0), the search depth is 2, the
  piece values are the usual ones and every positional bonus is 0.
\<close>

definition example_constants :: Constants where
  "example_constants =
     \<lparr> CHECKMATE_SCORE = 1000, STALEMATE_SCORE = 0, AI_DEPTH = 2,
       PIECE_VALUES = map_of [(CHR ''K'', 0), (CHR ''Q'', 9), (CHR ''R'', 5), (CHR ''B'', 3),
                              (CHR ''N'', 3), (CHR ''p'', 1)],
       PIECE_POSITION_SCORES = (\<lambda>pc. Some (replicate 8 (replicate 8 0))) \<rparr>"

text \<open>Black king a8, white king b6, white rook h7; black to move.\<close>

definition cornered_king_position :: GameState where
  "cornered_king_position =
     position [(0, 0, (CHR ''b'', CHR ''K'')), (2, 1, (CHR ''w'', CHR ''K'')),
               (1, 7, (CHR ''w'', CHR ''R''))] False (2, 1) (0, 0) None"


text \<open>White king e1, white rook a1, black king e8; white to move.\<close>

definition rook_ending_position :: GameState where
  "rook_ending_position =
     position [(7, 4, (CHR ''w'', CHR ''K'')), (7, 0, (CHR ''w'', CHR ''R'')),
               (0, 4, (CHR ''b'', CHR ''K''))] True (7, 4) (0, 4) None"

text \<open>
  White king h1, white bishop b1, black king e6, black queen e4 (giving check along the
  diagonal), black pawn h2, black rook h8; white to move.
\<close>

definition queen_check_position :: GameState where
  "queen_check_position =
     position [(7, 7, (CHR ''w'', CHR ''K'')), (7, 1, (CHR ''w'', CHR ''B'')),
               (2, 4, (CHR ''b'', CHR ''K'')), (4, 4, (CHR ''b'', CHR ''Q'')),
               (6, 7, (CHR ''b'', CHR ''p'')), (0, 7, (CHR ''b'', CHR ''R''))] True (7, 7) (2, 4) None"




section \<open>Results\<close>

subsection \<open>The detector\<close>

text \<open>
  C2.  An enemy knight on a knight-offset square from the king is recorded in the checks
  list with the offset, but the detector's \<open>in_check\<close> result stays false when no ray
  gives check: with the white king on e1 and a black knight on d3 the detector returns
  \<open>(False, [], [(5, 3, -2, -1)])\<close>.
\<close>

theorem knight_check_not_flagged:
  "detect knight_check_position = Inr (False, [], [(5, 3, -2, -1)])"
  by code_simp

text \<open>
  C3.  The attack rule accepts a pawn at distance 1 on all four diagonal rays, whatever
  the side to move: a black pawn one row below the white king, on the down-right ray
  (index 7), is reported as giving check.
\<close>

theorem pawn_accepted_on_every_diagonal:
  "isValidAttackDirection 6 (CHR ''p'') 1 \<and> isValidAttackDirection 7 (CHR ''p'') 1 \<and>
   white_to_move pawn_behind_position \<and>
   detect pawn_behind_position = Inr (True, [], [(5, 5, 1, 1)])"
  by code_simp

subsection \<open>Undoing with an empty history\<close>

text \<open>
  C7 as stated fails: on the initial position, whose history is empty, \<open>undoMove\<close>
  returns normally and the state is the one it was given.
\<close>

theorem undoMove_empty_no_error:
  "move_log newGame = [] \<and> undoMove newGame = Inr newGame"
  by (simp add: undoMove_def newGame_def)

text \<open>
  C7 amended.  Calling \<open>undoMove\<close> on a state whose move history is empty raises
  nothing and returns the state unchanged.
\<close>

theorem undoMove_empty_noop:
  "move_log gs = [] \<Longrightarrow> undoMove gs = Inr gs"
  by (simp add: undoMove_def)

theorem undoMove_empty_noop_witness:
  "move_log knight_check_position = [] \<and>
   undoMove knight_check_position = Inr knight_check_position"
proof -
  have h: "move_log knight_check_position = []"
    by (simp add: knight_check_position_def position_def)
  show ?thesis using h undoMove_empty_noop [OF h] by simp
qed

subsection \<open>Applying a move and undoing it\<close>

text \<open>
  C1.  In the state reached by 1. e4 e5 followed by one applied and undone move, the king
  move e1-e2 is among the legal moves; applying it and undoing it at once restores the
  board, the side to move, the en-passant square and both king squares, but the castling
  rights come back as "white may not castle": \<open>undoMove\<close> left
  \<open>current_castling_rights\<close> referring to the log's last object, and
  \<open>updateCastleRights\<close> then cleared the flags of that object.
\<close>

theorem undo_loses_castling_rights:
  "(case after_probe of Inl e \<Rightarrow> False
    | Inr S \<Rightarrow>
        (case mkMove (7, 4) (6, 4) (board S) False False of Inl e \<Rightarrow> False
         | Inr m \<Rightarrow>
             (case getValidMoves S of Inl e \<Rightarrow> False | Inr (S', legal) \<Rightarrow> m \<in> set legal) \<and>
             (case makeMove S m of Inl e \<Rightarrow> False
              | Inr S1 \<Rightarrow>
                  (case undoMove S1 of Inl e \<Rightarrow> False
                   | Inr S2 \<Rightarrow>
                       cur_rights S = \<lparr>wks = True, bks = True, wqs = True, bqs = True\<rparr> \<and>
                       cur_rights S2 = \<lparr>wks = False, bks = True, wqs = False, bqs = True\<rparr> \<and>
                       board S2 = board S \<and> white_to_move S2 = white_to_move S \<and>
                       enpassant_possible S2 = enpassant_possible S \<and>
                       white_king_location S2 = white_king_location S \<and>
                       black_king_location S2 = black_king_location S))))"
  by code_simp

subsection \<open>The response to a check\<close>

text \<open>
  C5.  With the white king on e1 checked only by a knight on d3, the detector lists that
  one check but the filter returns the pawn moves a2-a3 and a2-a4, which do not land on
  d3 (and a king move to f2, a square the knight attacks).  With the king checked along
  the e-file by a rook on e8, the filter keeps the knight moves b1-c3 and b1-d2, which
  land on no square of the e-file: \<open>checks\<close> was overwritten by the king-move probes,
  and its first entry is by then a bishop's check of the probe square f1.
\<close>

theorem check_response_not_restricted:
  "detect knight_pawn_position = Inr (False, [], [(5, 3, -2, -1)]) \<and>
   (case getValidMoves knight_pawn_position of Inl e \<Rightarrow> False
    | Inr (g, legal) \<Rightarrow>
        map lands legal =
          [(CHR ''p'', 5, 0), (CHR ''p'', 4, 0), (CHR ''K'', 6, 3), (CHR ''K'', 6, 4),
           (CHR ''K'', 6, 5), (CHR ''K'', 7, 3), (CHR ''K'', 7, 5)]) \<and>
   detect rook_check_position = Inr (True, [], [(0, 4, -1, 0)]) \<and>
   (case getValidMoves rook_check_position of Inl e \<Rightarrow> False
    | Inr (g, legal) \<Rightarrow>
        map lands legal =
          [(CHR ''N'', 5, 2), (CHR ''N'', 6, 3), (CHR ''K'', 6, 3), (CHR ''K'', 6, 5),
           (CHR ''K'', 7, 3)] \<and>
        checks g = [(4, 2, -1, -1)])"
  by code_simp

subsection \<open>En passant and the discovered attack along the rank\<close>

text \<open>
  C8.  King a5, pawn e5, black pawn f5, black rook h5: capturing en passant towards the
  right removes both pawns from the rank and leaves the king attacked by the rook, yet
  the capture e5xf6 is among the legal moves; after it, the rook can take the king on a5.
  The helper put the captured pawn itself, on f5, among the blocking pieces.
\<close>

theorem en_passant_not_suppressed:
  "(case getValidMoves ep_discovery_position of Inl e \<Rightarrow> False
    | Inr (g, legal) \<Rightarrow>
        (case filter is_enpassant_move legal of
           [m] \<Rightarrow>
             (start_row m, start_col m, end_row m, end_col m) = (3, 4, 2, 5) \<and>
             (case makeMove g m of Inl e \<Rightarrow> False
              | Inr g1 \<Rightarrow>
                  (case getAllPossibleMoves g1 of Inl e \<Rightarrow> False
                   | Inr (g2, replies) \<Rightarrow>
                       list_ex (\<lambda>r. piece_captured r = (CHR ''w'', CHR ''K'')
                                     \<and> (start_row r, start_col r) = (3, 7)) replies))
         | _ \<Rightarrow> False))"
  by code_simp

subsection \<open>What move generation leaves unchanged\<close>


lemma agree_refl: "agree gs gs" by (simp add: agree_def)
lemma agree_trans: "agree a b \<Longrightarrow> agree b c \<Longrightarrow> agree a c" by (simp add: agree_def)

lemma agree_king_here: "agree gs gs' \<Longrightarrow> king_here gs' sq = king_here gs sq"
  by (simp add: agree_def king_here_def cong: sum.case_cong)

lemma agree_checkFor: "checkForPinsAndChecks gs = Inr (gs', r) \<Longrightarrow> agree gs gs'"
  by (auto simp: checkForPinsAndChecks_def agree_def split: sum.splits prod.splits)

lemma agree_drop_pin: "agree gs (drop_pin gs pin)"
  by (cases pin) (simp_all add: drop_pin_def agree_def)

lemma getPawnMoves_state:
  "getPawnMoves gs row col moves = Inr (gs', ms) \<Longrightarrow> gs' = drop_pin gs (find_pin (pins gs) row col)"
  unfolding getPawnMoves_def Let_def
  by (simp split: sum.split_asm)

lemma agree_getPawnMoves: "getPawnMoves gs row col moves = Inr (gs', ms) \<Longrightarrow> agree gs gs'"
  by (drule getPawnMoves_state) (simp add: agree_drop_pin)

lemma agree_getRookMoves: "getRookMoves gs row col moves = Inr (gs', ms) \<Longrightarrow> agree gs gs'"
  unfolding getRookMoves_def Let_def
  by (auto simp: agree_drop_pin agree_refl split: sum.split_asm if_split_asm)

lemma agree_getBishopMoves: "getBishopMoves gs row col moves = Inr (gs', ms) \<Longrightarrow> agree gs gs'"
  unfolding getBishopMoves_def Let_def
  by (auto simp: agree_drop_pin split: sum.split_asm)

lemma agree_getKnightMoves: "getKnightMoves gs row col moves = Inr (gs', ms) \<Longrightarrow> agree gs gs'"
  unfolding getKnightMoves_def Let_def
  by (auto simp: agree_drop_pin split: sum.split_asm)

lemma agree_getQueenMoves: "getQueenMoves gs row col moves = Inr (gs', ms) \<Longrightarrow> agree gs gs'"
  unfolding getQueenMoves_def
  by (auto split: sum.split_asm dest!: agree_getRookMoves agree_getBishopMoves intro: agree_trans)

lemma agree_kingLoop:
  "kingLoop gs ally row col mvs moves = Inr (gs', ms) \<Longrightarrow> king_of gs ally = (row, col) \<Longrightarrow> agree gs gs'"
proof (induction mvs arbitrary: gs moves)
  case Nil
  then show ?case by (simp add: agree_refl)
next
  case (Cons mv mvs)
  show ?case
  proof (cases "0 \<le> row + fst mv \<and> row + fst mv \<le> 7 \<and> 0 \<le> col + snd mv \<and> col + snd mv \<le> 7")
    case False
    with Cons show ?thesis by (auto simp: Let_def)
  next
    case True
    note inb = this
    from Cons.prems(1) inb obtain pc where pc: "board_get (board gs) (row + fst mv) (col + snd mv) = Inr pc"
      by (auto simp: Let_def split: sum.splits)
    show ?thesis
    proof (cases "fst pc \<noteq> ally")
      case False
      with Cons inb pc show ?thesis by (auto simp: Let_def)
    next
      case True
      from Cons.prems(1) inb pc True obtain gs1 r moves' where
        c: "checkForPinsAndChecks (set_king gs ally (row + fst mv, col + snd mv)) = Inr (gs1, r)"
        and k: "kingLoop (set_king gs1 ally (row, col)) ally row col mvs moves' = Inr (gs', ms)"
        by (auto simp: Let_def split: sum.splits prod.splits if_splits)
      from agree_checkFor[OF c] have a1: "agree (set_king gs ally (row + fst mv, col + snd mv)) gs1" .
      have a2: "agree gs (set_king gs1 ally (row, col))"
        using a1 Cons.prems(2) by (auto simp: agree_def set_king_def king_of_def split: if_splits)
      have "king_of (set_king gs1 ally (row, col)) ally = (row, col)"
        by (simp add: king_of_def set_king_def)
      from Cons.IH[OF k this] a2 show ?thesis by (rule agree_trans[rotated])
    qed
  qed
qed


lemma agree_getKingMoves:
  "getKingMoves gs row col moves = Inr (gs', ms) \<Longrightarrow>
   (if white_to_move gs then white_king_location gs else black_king_location gs) = (row, col) \<Longrightarrow>
   agree gs gs'"
  unfolding getKingMoves_def
  by (erule agree_kingLoop) (simp add: king_of_def split: if_split_asm)

lemma agree_moveFunctions:
  "moveFunctions p gs row col moves = Inr (gs', ms) \<Longrightarrow>
   (p = KING \<Longrightarrow> (if white_to_move gs then white_king_location gs else black_king_location gs) = (row, col)) \<Longrightarrow>
   agree gs gs'"
  unfolding moveFunctions_def
  by (auto split: if_split_asm
      dest: agree_getPawnMoves agree_getRookMoves agree_getKnightMoves agree_getBishopMoves
            agree_getQueenMoves agree_getKingMoves)

lemma king_here_mover:
  assumes "king_here gs sq" "board_get (board gs) (fst sq) (snd sq) = Inr pc"
    "(fst pc = WHITE_COLOR \<and> white_to_move gs) \<or> (fst pc = BLACK_COLOR \<and> \<not> white_to_move gs)"
    "snd pc = KING"
  shows "(if white_to_move gs then white_king_location gs else black_king_location gs) = (fst sq, snd sq)"
proof -
  have pc: "pc = (fst pc, KING)" using assms(4) by (cases pc) simp
  show ?thesis
  proof (cases "white_to_move gs")
    case True
    with assms(3) have "fst pc = WHITE_COLOR" by (auto simp: WHITE_COLOR_def BLACK_COLOR_def)
    with pc have "pc = (WHITE_COLOR, KING)" by simp
    with assms(1,2) True show ?thesis by (simp add: king_here_def)
  next
    case False
    with assms(3) have "fst pc = BLACK_COLOR" by auto
    with pc have "pc = (BLACK_COLOR, KING)" by simp
    with assms(1,2) False show ?thesis by (simp add: king_here_def WHITE_COLOR_def BLACK_COLOR_def)
  qed
qed

lemma agree_squaresLoop:
  "squaresLoop gs sqs moves = Inr (gs', ms) \<Longrightarrow> list_all (king_here gs) sqs \<Longrightarrow> agree gs gs'"
proof (induction sqs arbitrary: gs moves)
  case Nil
  then show ?case by (simp add: agree_refl)
next
  case (Cons sq sqs)
  from Cons.prems(1) obtain pc where pc: "board_get (board gs) (fst sq) (snd sq) = Inr pc"
    by (auto split: sum.split_asm)
  from Cons.prems(2) have kh: "king_here gs sq" and rest: "list_all (king_here gs) sqs" by simp_all
  show ?case
  proof (cases "(fst pc = WHITE_COLOR \<and> white_to_move gs) \<or> (fst pc = BLACK_COLOR \<and> \<not> white_to_move gs)")
    case False
    with Cons.prems(1) pc have "squaresLoop gs sqs moves = Inr (gs', ms)" by simp
    from Cons.IH[OF this rest] show ?thesis .
  next
    case True
    with Cons.prems(1) pc obtain g1 m1 where
      mf: "moveFunctions (snd pc) gs (fst sq) (snd sq) moves = Inr (g1, m1)"
      and lp: "squaresLoop g1 sqs m1 = Inr (gs', ms)"
      by (auto split: sum.split_asm)
    have a1: "agree gs g1"
      by (rule agree_moveFunctions[OF mf]) (rule king_here_mover[OF kh pc True])
    have "list_all (king_here g1) sqs"
      using rest agree_king_here[OF a1] by (simp add: list_all_iff)
    from Cons.IH[OF lp this] a1 show ?thesis by (rule agree_trans[rotated])
  qed
qed

lemma agree_getAllPossibleMoves:
  "getAllPossibleMoves gs = Inr (gs', ms) \<Longrightarrow> kings_placed gs \<Longrightarrow> agree gs gs'"
  unfolding getAllPossibleMoves_def kings_placed_def by (rule agree_squaresLoop)

lemma agree_kings_placed: "agree gs gs' \<Longrightarrow> kings_placed gs' = kings_placed gs"
  by (simp add: kings_placed_def agree_king_here cong: list.pred_cong)

lemma king_here_flip: "king_here (gs\<lparr>white_to_move := b\<rparr>) = king_here gs"
  by (rule ext) (simp add: king_here_def cong: sum.case_cong)

lemma kings_placed_flip: "kings_placed (gs\<lparr>white_to_move := b\<rparr>) = kings_placed gs"
  by (simp add: kings_placed_def king_here_flip)

lemma agree_squareUnderAttack:
  "squareUnderAttack gs row col = Inr (gs', a) \<Longrightarrow> kings_placed gs \<Longrightarrow> agree gs gs'"
  unfolding squareUnderAttack_def
  by (auto split: sum.split_asm dest!: agree_getAllPossibleMoves simp: kings_placed_flip agree_def)

lemma agree_inCheck: "inCheck gs = Inr (gs', a) \<Longrightarrow> kings_placed gs \<Longrightarrow> agree gs gs'"
  unfolding inCheck_def by (auto split: if_split_asm dest: agree_squareUnderAttack)

lemma agree_getKingsideCastleMoves:
  assumes "getKingsideCastleMoves gs row col moves = Inr (gs', ms)" "kings_placed gs"
  shows "agree gs gs'"
  using assms unfolding getKingsideCastleMoves_def
  apply (auto split: sum.split_asm if_split_asm simp: agree_refl
        dest!: agree_squareUnderAttack simp: agree_kings_placed)
  apply (blast intro: agree_trans)+
  done

lemma agree_getQueensideCastleMoves:
  assumes "getQueensideCastleMoves gs row col moves = Inr (gs', ms)" "kings_placed gs"
  shows "agree gs gs'"
  using assms unfolding getQueensideCastleMoves_def
  apply (auto split: sum.split_asm if_split_asm simp: agree_refl
        dest!: agree_squareUnderAttack simp: agree_kings_placed)
  apply (blast intro: agree_trans)+
  done

lemma agree_getCastleMoves:
  assumes "getCastleMoves gs row col moves = Inr (gs', ms)" "kings_placed gs"
  shows "agree gs gs'"
proof -
  from assms(1) obtain g1 a where
    s1: "squareUnderAttack gs row col = Inr (g1, a)"
    by (auto simp: getCastleMoves_def split: sum.split_asm)
  have a1: "agree gs g1" by (rule agree_squareUnderAttack[OF s1 assms(2)])
  then have k1: "kings_placed g1" using assms(2) by (simp add: agree_kings_placed)
  show ?thesis
  proof (cases a)
    case True
    with assms(1) s1 have "gs' = g1" by (simp add: getCastleMoves_def)
    with a1 show ?thesis by simp
  next
    case False
    from assms(1) s1 False obtain g2 m2 where
      ks: "(if (white_to_move g1 \<and> wks (cur_rights g1)) \<or> (\<not> white_to_move g1 \<and> bks (cur_rights g1))
            then getKingsideCastleMoves g1 row col moves else Inr (g1, moves)) = Inr (g2, m2)"
      and qs: "(if (white_to_move g2 \<and> wqs (cur_rights g2)) \<or> (\<not> white_to_move g2 \<and> bqs (cur_rights g2))
            then getQueensideCastleMoves g2 row col m2 else Inr (g2, m2)) = Inr (gs', ms)"
      by (auto simp: getCastleMoves_def split: sum.split_asm)
    have a2: "agree g1 g2"
      using ks k1 by (auto split: if_split_asm dest: agree_getKingsideCastleMoves simp: agree_refl)
    then have k2: "kings_placed g2" using k1 by (simp add: agree_kings_placed)
    have a3: "agree g2 gs'"
      using qs k2 by (auto split: if_split_asm dest: agree_getQueensideCastleMoves simp: agree_refl)
    from a1 a2 a3 show ?thesis by (blast intro: agree_trans)
  qed
qed

lemma agree_singleCheckMoves:
  "singleCheckMoves gs kr kc = Inr (gs', ms) \<Longrightarrow> kings_placed gs \<Longrightarrow> agree gs gs'"
  unfolding singleCheckMoves_def Let_def
  by (auto split: sum.split_asm dest: agree_getAllPossibleMoves)


lemma agree_generateMoves:
  assumes "generateMoves gs = Inr (gs', ms)" "kings_placed gs"
  shows "agree gs gs'"
proof (cases "in_check gs")
  case True
  show ?thesis
  proof (cases "length (checks gs) = 1")
    case True
    with \<open>in_check gs\<close> assms(1) obtain kr kc where "singleCheckMoves gs kr kc = Inr (gs', ms)"
      by (simp add: generateMoves_def Let_def)
    from agree_singleCheckMoves[OF this assms(2)] show ?thesis .
  next
    case False
    with \<open>in_check gs\<close> assms(1) have
      "getKingMoves gs (fst (if white_to_move gs then white_king_location gs else black_king_location gs))
         (snd (if white_to_move gs then white_king_location gs else black_king_location gs)) [] = Inr (gs', ms)"
      by (simp add: generateMoves_def Let_def)
    from agree_getKingMoves[OF this] show ?thesis by simp
  qed
next
  case False
  with assms(1) have
    "(case getAllPossibleMoves gs of Inl e \<Rightarrow> Inl e
      | Inr (gs1, moves) \<Rightarrow>
          if white_to_move gs1
          then getCastleMoves gs1 (fst (white_king_location gs1)) (snd (white_king_location gs1)) moves
          else getCastleMoves gs1 (fst (black_king_location gs1)) (snd (black_king_location gs1)) moves)
     = Inr (gs', ms)"
    by (simp add: generateMoves_def Let_def)
  then obtain g1 m1 kr kc where
    ga: "getAllPossibleMoves gs = Inr (g1, m1)"
    and gc: "getCastleMoves g1 kr kc m1 = Inr (gs', ms)"
    by (cases "getAllPossibleMoves gs") (auto split: if_split_asm)
  have a1: "agree gs g1" by (rule agree_getAllPossibleMoves[OF ga assms(2)])
  then have "kings_placed g1" using assms(2) by (simp add: agree_kings_placed)
  from agree_getCastleMoves[OF gc this] a1 show ?thesis by (blast intro: agree_trans)
qed

lemma getValidMoves_phases:
  assumes "getValidMoves gs = Inr (gs', moves)"
  obtains g2 r g3 g4 where
    "checkForPinsAndChecks (fst (new_rights gs (cur_rights gs))) = Inr (g2, r)"
    "generateMoves g2 = Inr (g3, moves)"
    "setStatus g3 moves = Inr g4"
    "gs' = g4\<lparr>current_castling_rights := snd (new_rights gs (cur_rights gs))\<rparr>"
proof -
  obtain g1 t where nr: "new_rights gs (cur_rights gs) = (g1, t)" by (cases "new_rights gs (cur_rights gs)")
  from assms nr obtain g2 r where c: "checkForPinsAndChecks g1 = Inr (g2, r)"
    by (cases "checkForPinsAndChecks g1") (auto simp: getValidMoves_def)
  from assms nr c obtain g3 where g: "generateMoves g2 = Inr (g3, moves)"
    by (cases "generateMoves g2") (auto simp: getValidMoves_def split: sum.split_asm prod.split_asm)
  from assms nr c g obtain g4 where s: "setStatus g3 moves = Inr g4"
    and e: "gs' = g4\<lparr>current_castling_rights := t\<rparr>"
    by (cases "setStatus g3 moves") (auto simp: getValidMoves_def split: prod.split_asm)
  from that[of g2 r g3 g4] nr c g s e show ?thesis by simp
qed

lemma setStatus_cases:
  assumes "setStatus g3 moves = Inr g4" "kings_placed g3"
  shows "(moves \<noteq> [] \<and> g4 = g3\<lparr>checkmate := False, stalemate := False\<rparr>) \<or>
         (moves = [] \<and> (\<exists>g attacked. inCheck g3 = Inr (g, attacked) \<and> agree g3 g \<and>
             g4 = (if attacked then g\<lparr>checkmate := True\<rparr> else g\<lparr>stalemate := True\<rparr>)))"
proof (cases "moves = []")
  case False
  with assms(1) show ?thesis by (simp add: setStatus_def)
next
  case True
  with assms(1) obtain g a where ic: "inCheck g3 = Inr (g, a)"
    and g4: "g4 = (if a then g\<lparr>checkmate := True\<rparr> else g\<lparr>stalemate := True\<rparr>)"
    by (cases "inCheck g3") (auto simp: setStatus_def split: if_split_asm)
  from agree_inCheck[OF ic assms(2)] ic g4 True show ?thesis by blast
qed

lemma kings_placed_new_rights: "kings_placed (fst (new_rights gs v)) = kings_placed gs"
proof -
  have "king_here (fst (new_rights gs v)) = king_here gs"
    by (rule ext) (simp add: new_rights_def king_here_def cong: sum.case_cong)
  then show ?thesis by (simp add: kings_placed_def)
qed

subsection \<open>The legal move filter leaves the position as it was\<close>

text \<open>
  C10.  When \<open>getValidMoves\<close> returns on a position whose king-location fields hold
  the squares of the kings on the board, the castling rights it leaves are the rights it
  found, and the board, the side to move, the move history, both king locations and the
  en-passant square are the ones it found.
\<close>

theorem getValidMoves_restores_position:
  assumes "getValidMoves gs = Inr (gs', moves)" and "kings_placed gs"
  shows "cur_rights gs' = cur_rights gs \<and> board gs' = board gs \<and>
         white_to_move gs' = white_to_move gs \<and> move_log gs' = move_log gs \<and>
         white_king_location gs' = white_king_location gs \<and>
         black_king_location gs' = black_king_location gs \<and>
         enpassant_possible gs' = enpassant_possible gs"
proof -
  from assms(1) obtain g2 r g3 g4 where
    c: "checkForPinsAndChecks (fst (new_rights gs (cur_rights gs))) = Inr (g2, r)"
    and g: "generateMoves g2 = Inr (g3, moves)"
    and s: "setStatus g3 moves = Inr g4"
    and e: "gs' = g4\<lparr>current_castling_rights := snd (new_rights gs (cur_rights gs))\<rparr>"
    by (rule getValidMoves_phases)
  let ?g1 = "fst (new_rights gs (cur_rights gs))"
  have k1: "kings_placed ?g1" using assms(2) by (simp add: kings_placed_new_rights)
  have a12: "agree ?g1 g2" by (rule agree_checkFor[OF c])
  then have k2: "kings_placed g2" using k1 by (simp add: agree_kings_placed)
  have a23: "agree g2 g3" by (rule agree_generateMoves[OF g k2])
  then have k3: "kings_placed g3" using k2 by (simp add: agree_kings_placed)
  have a13: "agree ?g1 g3" using a12 a23 by (rule agree_trans)
  have "\<exists>g. agree g3 g \<and> g4 = g\<lparr>checkmate := checkmate g4, stalemate := stalemate g4\<rparr>"
    using setStatus_cases[OF s k3]
  proof
    assume "moves \<noteq> [] \<and> g4 = g3\<lparr>checkmate := False, stalemate := False\<rparr>"
    then have "agree g3 g3 \<and> g4 = g3\<lparr>checkmate := checkmate g4, stalemate := stalemate g4\<rparr>"
      by (simp add: agree_refl)
    then show ?thesis ..
  next
    assume "moves = [] \<and> (\<exists>g attacked. inCheck g3 = Inr (g, attacked) \<and> agree g3 g \<and>
             g4 = (if attacked then g\<lparr>checkmate := True\<rparr> else g\<lparr>stalemate := True\<rparr>))"
    then obtain g attacked where "agree g3 g"
      "g4 = (if attacked then g\<lparr>checkmate := True\<rparr> else g\<lparr>stalemate := True\<rparr>)" by blast
    then have "agree g3 g \<and> g4 = g\<lparr>checkmate := checkmate g4, stalemate := stalemate g4\<rparr>"
      by (cases attacked) simp_all
    then show ?thesis ..
  qed
  then obtain g where a3: "agree g3 g"
    and g4: "g4 = g\<lparr>checkmate := checkmate g4, stalemate := stalemate g4\<rparr>" by blast
  from a13 a3 have "agree ?g1 g" by (rule agree_trans)
  then have f: "board g = board gs" "white_to_move g = white_to_move gs" "move_log g = move_log gs"
    "white_king_location g = white_king_location gs" "black_king_location g = black_king_location gs"
    "enpassant_possible g = enpassant_possible gs"
    "cr_store g (cr_next gs) = cur_rights gs"
    by (simp_all add: agree_def new_rights_def)
  have e': "gs' = g\<lparr>checkmate := checkmate g4, stalemate := stalemate g4,
                     current_castling_rights := cr_next gs\<rparr>"
    using e g4 by (simp add: new_rights_def)
  show ?thesis
    by (subst (1 2 3 4 5 6 7) e') (simp add: f cur_rights_def)
qed


theorem getValidMoves_restores_position_witness:
  "\<exists>gs' moves. getValidMoves newGame = Inr (gs', moves) \<and> kings_placed newGame \<and>
     length moves = 20 \<and>
     cur_rights gs' = cur_rights newGame \<and> board gs' = board newGame \<and>
     white_to_move gs' = white_to_move newGame \<and> move_log gs' = move_log newGame \<and>
     white_king_location gs' = white_king_location newGame \<and>
     black_king_location gs' = black_king_location newGame \<and>
     enpassant_possible gs' = enpassant_possible newGame"
proof -
  have "case getValidMoves newGame of Inl e \<Rightarrow> False | Inr (g, ms) \<Rightarrow> length ms = 20"
    by code_simp
  then obtain gs' moves where r: "getValidMoves newGame = Inr (gs', moves)" and n: "length moves = 20"
    by (auto split: sum.split_asm)
  have k: "kings_placed newGame" by code_simp
  from getValidMoves_restores_position[OF r k] r k n show ?thesis by blast
qed

subsection \<open>The game-end flags\<close>

text \<open>
  C9.  White king h1, white bishop b1, black king e6, black queen e4, black pawn h2, black
  rook h8; white to move, both flags false.  The detector reports the queen's check along
  the diagonal, and the bishop's capture of the queen is among the pseudo-legal moves.  The
  filter nevertheless returns the empty list; \<open>inCheck\<close> answers that the king is not
  attacked, so the stalemate flag is set and the checkmate flag stays false, while the king
  is attacked.
\<close>

theorem attacked_king_declared_stalemate:
  "detect queen_check_position = Inr (True, [], [(4, 4, -1, -1)]) \<and>
   (case checkForPinsAndChecks queen_check_position of Inl e \<Rightarrow> False
    | Inr (g, r) \<Rightarrow>
        (case getAllPossibleMoves g of Inl e \<Rightarrow> False
         | Inr (g', ms) \<Rightarrow> (CHR ''B'', 4, 4) \<in> set (map lands ms))) \<and>
   (case inCheck queen_check_position of Inl e \<Rightarrow> False | Inr (g, attacked) \<Rightarrow> \<not> attacked) \<and>
   (case getValidMoves queen_check_position of Inl e \<Rightarrow> False
    | Inr (g, ms) \<Rightarrow> ms = [] \<and> stalemate g \<and> \<not> checkmate g)"
proof (intro conjI)
  show "detect queen_check_position = Inr (True, [], [(4, 4, -1, -1)])" by code_simp
  show "case checkForPinsAndChecks queen_check_position of Inl e \<Rightarrow> False
    | Inr (g, r) \<Rightarrow>
        (case getAllPossibleMoves g of Inl e \<Rightarrow> False
         | Inr (g', ms) \<Rightarrow> (CHR ''B'', 4, 4) \<in> set (map lands ms))" by code_simp
  show "case inCheck queen_check_position of Inl e \<Rightarrow> False | Inr (g, attacked) \<Rightarrow> \<not> attacked"
    by code_simp
  show "case getValidMoves queen_check_position of Inl e \<Rightarrow> False
    | Inr (g, ms) \<Rightarrow> ms = [] \<and> stalemate g \<and> \<not> checkmate g" by code_simp
qed

text \<open>
  In the position after 1. f3 e5 2. g4 Qh4 the filter returns no move, sets the checkmate
  flag and leaves the stalemate flag false.
\<close>

lemma fools_mate_flags:
  "case getValidMoves fools_mate of Inl e \<Rightarrow> False
   | Inr (g, ms) \<Rightarrow> ms = [] \<and> checkmate g \<and> \<not> stalemate g"
  by code_simp

subsection \<open>The move the search delivers\<close>

text \<open>One pass of the loop \<open>for move in valid_moves\<close>, taken apart.\<close>

lemma abLoop_ConsE:
  assumes "abLoop C gs nm (move # rest) d alpha beta tm mx = Inr res"
  obtains gs1 gs2 next_moves w gs3 nm1 gs4 where
    "makeMove gs move = Inr gs1"
    "getValidMoves gs1 = Inr (gs2, next_moves)"
    "findMoveNegaMaxAlphaBeta C gs2 nm next_moves d (- beta) (- alpha) (- tm) = Inr (w, gs3, nm1)"
    "undoMove gs3 = Inr gs4"
    "beta \<le> max alpha (max mx (- w)) \<Longrightarrow>
       res = (max mx (- w), gs4, if - w > mx \<and> Suc d = AI_DEPTH C then Some move else nm1)"
    "\<not> beta \<le> max alpha (max mx (- w)) \<Longrightarrow>
       abLoop C gs4 (if - w > mx \<and> Suc d = AI_DEPTH C then Some move else nm1) rest d
         (max alpha (max mx (- w))) beta tm (max mx (- w)) = Inr res"
proof -
  from assms obtain gs1 where m: "makeMove gs move = Inr gs1"
    by (cases "makeMove gs move") auto
  from assms m obtain gs2 next_moves where g: "getValidMoves gs1 = Inr (gs2, next_moves)"
    by (cases "getValidMoves gs1") auto
  from assms m g obtain w gs3 nm1 where
    r: "findMoveNegaMaxAlphaBeta C gs2 nm next_moves d (- beta) (- alpha) (- tm) = Inr (w, gs3, nm1)"
    by (cases "findMoveNegaMaxAlphaBeta C gs2 nm next_moves d (- beta) (- alpha) (- tm)") auto
  from assms m g r obtain gs4 where u: "undoMove gs3 = Inr gs4"
    by (cases "undoMove gs3") (auto simp: Let_def)
  define mx' where "mx' = (if - w > mx then - w else mx)"
  define al' where "al' = (if mx' > alpha then mx' else alpha)"
  define nm2 where "nm2 = (if - w > mx \<and> Suc d = AI_DEPTH C then Some move else nm1)"
  have eq: "(if al' \<ge> beta then Inr (mx', gs4, nm2)
             else abLoop C gs4 nm2 rest d al' beta tm mx') = Inr res"
    using assms m g r u unfolding mx'_def al'_def nm2_def by (simp add: Let_def)
  have mx'': "mx' = max mx (- w)" by (simp add: mx'_def max_def)
  have al'': "al' = max alpha (max mx (- w))" by (simp add: al'_def mx'' max_def)
  show ?thesis
  proof (rule that[OF m g r u])
    assume "beta \<le> max alpha (max mx (- w))"
    with eq show "res = (max mx (- w), gs4, if - w > mx \<and> Suc d = AI_DEPTH C then Some move else nm1)"
      unfolding mx'' al'' nm2_def by simp
  next
    assume "\<not> beta \<le> max alpha (max mx (- w))"
    with eq show "abLoop C gs4 (if - w > mx \<and> Suc d = AI_DEPTH C then Some move else nm1) rest d
         (max alpha (max mx (- w))) beta tm (max mx (- w)) = Inr res"
      unfolding mx'' al'' nm2_def by simp
  qed
qed

lemma abLoop_keeps_next_move:
  assumes IH: "\<And>gs nm ms alpha beta tm v gs' nm'.
      findMoveNegaMaxAlphaBeta C gs nm ms d alpha beta tm = Inr (v, gs', nm') \<Longrightarrow> nm' = nm"
    and ne: "Suc d \<noteq> AI_DEPTH C"
  shows "abLoop C gs nm ms d alpha beta tm mx = Inr (v, gs', nm') \<Longrightarrow> nm' = nm"
proof (induction ms arbitrary: gs nm alpha mx)
  case Nil
  then show ?case by simp
next
  case (Cons move rest)
  from Cons.prems show ?case
  proof (rule abLoop_ConsE)
    fix gs1 gs2 next_moves w gs3 nm1 gs4
    assume r: "findMoveNegaMaxAlphaBeta C gs2 nm next_moves d (- beta) (- alpha) (- tm) = Inr (w, gs3, nm1)"
      and brk: "beta \<le> max alpha (max mx (- w)) \<Longrightarrow>
         (v, gs', nm') = (max mx (- w), gs4, if - w > mx \<and> Suc d = AI_DEPTH C then Some move else nm1)"
      and cont: "\<not> beta \<le> max alpha (max mx (- w)) \<Longrightarrow>
         abLoop C gs4 (if - w > mx \<and> Suc d = AI_DEPTH C then Some move else nm1) rest d
           (max alpha (max mx (- w))) beta tm (max mx (- w)) = Inr (v, gs', nm')"
    from IH[OF r] have n1: "nm1 = nm" .
    show "nm' = nm"
    proof (cases "beta \<le> max alpha (max mx (- w))")
      case True
      from brk[OF True] ne n1 show ?thesis by simp
    next
      case False
      from cont[OF False] ne n1 have
        "abLoop C gs4 nm rest d (max alpha (max mx (- w))) beta tm (max mx (- w)) = Inr (v, gs', nm')"
        by simp
      from Cons.IH[OF this] show ?thesis .
    qed
  qed
qed

lemma deeper_keeps_next_move:
  "findMoveNegaMaxAlphaBeta C gs nm ms d alpha beta tm = Inr (v, gs', nm') \<Longrightarrow> d < AI_DEPTH C \<Longrightarrow> nm' = nm"
proof (induction d arbitrary: gs nm ms alpha beta tm v gs' nm')
  case 0
  then show ?case by (auto split: sum.split_asm)
next
  case (Suc d)
  from Suc.prems(2) have lt: "d < AI_DEPTH C" and ne: "Suc d \<noteq> AI_DEPTH C" by simp_all
  from Suc.prems(1) have
    "abLoop C gs nm ms d alpha beta tm (- CHECKMATE_SCORE C) = Inr (v, gs', nm')" by simp
  then show ?case
    by (rule abLoop_keeps_next_move[rotated 2]) (rule Suc.IH[OF _ lt], assumption, rule ne)
qed

lemma root_loop_next_move:
  assumes root: "Suc d = AI_DEPTH C"
  shows "abLoop C gs nm ms d alpha beta tm mx = Inr (v, gs', nm') \<Longrightarrow>
         mx \<le> v \<and> (v = mx \<longrightarrow> nm' = nm) \<and> (mx < v \<longrightarrow> (\<exists>m \<in> set ms. nm' = Some m))"
proof (induction ms arbitrary: gs nm alpha mx)
  case Nil
  then show ?case by simp
next
  case (Cons move rest)
  from Cons.prems show ?case
  proof (rule abLoop_ConsE)
    fix gs1 gs2 next_moves w gs3 nm1 gs4
    assume r: "findMoveNegaMaxAlphaBeta C gs2 nm next_moves d (- beta) (- alpha) (- tm) = Inr (w, gs3, nm1)"
      and brk: "beta \<le> max alpha (max mx (- w)) \<Longrightarrow>
         (v, gs', nm') = (max mx (- w), gs4, if - w > mx \<and> Suc d = AI_DEPTH C then Some move else nm1)"
      and cont: "\<not> beta \<le> max alpha (max mx (- w)) \<Longrightarrow>
         abLoop C gs4 (if - w > mx \<and> Suc d = AI_DEPTH C then Some move else nm1) rest d
           (max alpha (max mx (- w))) beta tm (max mx (- w)) = Inr (v, gs', nm')"
    have "d < AI_DEPTH C" using root by simp
    from deeper_keeps_next_move[OF r this] have n1: "nm1 = nm" .
    show ?thesis
    proof (cases "beta \<le> max alpha (max mx (- w))")
      case True
      from brk[OF True] root n1 show ?thesis by (auto simp: max_def)
    next
      case False
      from Cons.IH[OF cont[OF False]] root n1 show ?thesis
        by (auto simp: max_def split: if_split_asm)
    qed
  qed
qed

text \<open>
  C6.  White king e1, white rook a1, black king e8; white to move, search depth 2.  The
  legal-move list has 15 moves.  When the search tries the rook's move to a8, which gives
  check along the eighth rank, \<open>getValidMoves\<close> raises IndexError, and the error leaves
  \<open>findBestMove\<close> before anything is put on the queue.
\<close>

theorem findBestMove_raises:
  "(case getValidMoves rook_ending_position of Inl e \<Rightarrow> False
    | Inr (g, ms) \<Rightarrow>
        length ms = 15 \<and> findBestMove example_constants g ms = Inl IndexError) \<and>
   (case playMove rook_ending_position (7, 0) (0, 0) of Inl e \<Rightarrow> False
    | Inr g \<Rightarrow>
        detect g = Inr (True, [], [(0, 0, 0, -1)]) \<and>
        (case getValidMoves g of Inl e \<Rightarrow> e = IndexError | Inr r \<Rightarrow> False))"
proof (intro conjI)
  show "case getValidMoves rook_ending_position of Inl e \<Rightarrow> False
    | Inr (g, ms) \<Rightarrow>
        length ms = 15 \<and> findBestMove example_constants g ms = Inl IndexError" by code_simp
  show "case playMove rook_ending_position (7, 0) (0, 0) of Inl e \<Rightarrow> False
    | Inr g \<Rightarrow>
        detect g = Inr (True, [], [(0, 0, 0, -1)]) \<and>
        (case getValidMoves g of Inl e \<Rightarrow> e = IndexError | Inr r \<Rightarrow> False)" by code_simp
qed

text \<open>
  Where the search does return, it can return without having recorded a move.  Black king
  a8, white king b6, white rook h7, black to move, search depth 2: the legal-move list
  holds one move, the king's to b8; the reply Rh8 mates, so the move scores
  \<open>- CHECKMATE_SCORE\<close>, which is not above the initial \<open>max_score\<close>, and
  \<open>findBestMove\<close> delivers \<open>None\<close>.
\<close>

theorem findBestMove_delivers_None:
  "(case getValidMoves cornered_king_position of Inl e \<Rightarrow> False
    | Inr (g, ms) \<Rightarrow>
        map lands ms = [(CHR ''K'', 0, 1)] \<and> findBestMove example_constants g ms = Inr None)"
  by code_simp

subsection \<open>Pruning and the exhaustive search\<close>


end
